theory Spec2Isabelle
  imports Main "HOL-Library.AList"
begin

section \<open>The connection registry of pkg/business/connection.go\<close>

text \<open>
  The file embeds the package-level registry \<^verbatim>\<open>userConnections\<close> and the operations
  of \<^verbatim>\<open>connection.go\<close> that read and change it. Connect and Disconnect hold the
  registry's write lock for their whole body (\<^verbatim>\<open>Lock\<close> with a deferred
  \<^verbatim>\<open>Unlock\<close>) and the reads hold the read lock while they look the registry up, so
  each operation is modelled as one function on the state.
\<close>

subsection \<open>Go maps\<close>

text \<open>
  A Go map is an association list with distinct keys: \<^term>\<open>map_of\<close> is the lookup
  \<^verbatim>\<open>v, found := m[k]\<close>, \<^term>\<open>AList.update\<close> is \<^verbatim>\<open>m[k] = v\<close> and \<^term>\<open>AList.delete\<close>
  is \<^verbatim>\<open>delete(m, k)\<close>. The order of the list stands for the order in which
  \<^verbatim>\<open>range\<close> visits the entries, which Go leaves unspecified; no theorem below depends
  on it.
\<close>

type_synonym ('k, 'v) gomap = "('k \<times> 'v) list"

subsection \<open>Errors\<close>

text \<open>
  \<^verbatim>\<open>req.NewNotFoundError(format, arg)\<close> and \<^verbatim>\<open>req.NewServerErrorByError(err)\<close> build the
  two typed errors of the service boundary; \<open>AdapterError\<close> is any error an adapter
  query hands back, returned unmodified. An error of a collaborator (the adapter, the
  message bus) is known by its \<^verbatim>\<open>Error()\<close> text only.
\<close>

type_synonym go_error = string

datatype error = NotFoundError string | ServerError go_error | AdapterError go_error

subsection \<open>The adapter package's connection context\<close>

text \<open>
  Modelled from the spec: \<^verbatim>\<open>adapter.ConnectionContext\<close>, its status enumeration and its
  accessor methods live in pkg/adapter, which is not part of the source at hand. The
  record has the attributes the data model gives a context (owning username, connection
  code, adapter metadata, status, authorization URL, refresh-due indicator); the methods
  read them.
\<close>

record AdapterInfo =
  Code :: string
  Name :: string

datatype ContextStatus =
  ContextStatusDisconnected | ContextStatusConnecting | ContextStatusConnected | ContextStatusError

record ConnectionContext =
  Username :: string
  ConnectionCode :: string
  adapterInfo :: AdapterInfo
  status :: ContextStatus
  authUrl :: string
  needsRefresh :: bool

definition GetAdapterInfo :: "ConnectionContext \<Rightarrow> AdapterInfo" where
  "GetAdapterInfo ctx = adapterInfo ctx"

definition GetStatus :: "ConnectionContext \<Rightarrow> ContextStatus" where
  "GetStatus ctx = status ctx"

definition GetAdapterAuthUrl :: "ConnectionContext \<Rightarrow> string" where
  "GetAdapterAuthUrl ctx = authUrl ctx"

definition IsConnected :: "ConnectionContext \<Rightarrow> bool" where
  "IsConnected ctx = (status ctx = ContextStatusConnected)"

definition IsConnecting :: "ConnectionContext \<Rightarrow> bool" where
  "IsConnecting ctx = (status ctx = ContextStatusConnecting)"

definition IsDisconnected :: "ConnectionContext \<Rightarrow> bool" where
  "IsDisconnected ctx = (status ctx = ContextStatusDisconnected)"

definition NeedsRefresh :: "ConnectionContext \<Rightarrow> bool" where
  "NeedsRefresh ctx = needsRefresh ctx"

text \<open>The three outcomes \<^verbatim>\<open>ctx.Connect()\<close> is switched on, and any other value.\<close>

datatype AdapterConnectionResult =
  ConnectionResultConnected | ConnectionResultOpenUrl | ConnectionResultProxyUrl
  | ConnectionResultOther

typedecl RootSymbol
typedecl Instrument
typedecl PriceBars
typedecl Account

subsection \<open>The business package's value types\<close>

text \<open>
  Modelled from the spec: the declarations of \<^verbatim>\<open>ConnectionSpec\<close>, \<^verbatim>\<open>ConnectionResult\<close>,
  \<^verbatim>\<open>ConnectionInfo\<close>, \<^verbatim>\<open>ConnectionChangeSystemMessage\<close>, \<^verbatim>\<open>TestAdapterRequest\<close>,
  \<^verbatim>\<open>UserConnections\<close> and the status and action constants are in other files of the
  package. The fields are the ones \<^verbatim>\<open>connection.go\<close> reads and writes. A field of
  \<^verbatim>\<open>ConnectionResult\<close> that a struct literal leaves out holds Go's zero value: \<open>None\<close>
  for the status and the action, the empty string for the message.
\<close>

type_synonym Params = "(string \<times> string) list"

record ConnectionSpec =
  SystemCode :: string
  ConfigParams :: Params
  ConnectParams :: Params

datatype ConnectionStatus =
  ConnectionStatusConnected | ConnectionStatusConnecting | ConnectionStatusError

datatype ConnectionAction = ConnectionActionNone | ConnectionActionOpenUrl

record ConnectionResult =
  Status :: "ConnectionStatus option"
  Action :: "ConnectionAction option"
  Message :: string

record ConnectionInfo =
  Username :: string
  ConnectionCode :: string
  SystemCode :: string
  SystemName :: string

record ConnectionChangeSystemMessage =
  Username :: string
  ConnectionCode :: string
  SystemCode :: string
  Status :: ContextStatus

record TestAdapterRequest =
  Service :: string
  Query :: string

text \<open>
  The maps hold pointers. A context is shared between the registry, the adapter that
  changes its status and the callers that receive it, so contexts live in a store and
  the registry holds their addresses. A \<^verbatim>\<open>*UserConnections\<close> is reachable through the
  registry only, so it is held by value and written back where the source writes
  through the pointer.
\<close>

type_synonym addr = nat

record UserConnections =
  contexts :: "(string, addr) gomap"

definition NewUserConnections :: UserConnections where
  "NewUserConnections = \<lparr>contexts = []\<rparr>"

subsection \<open>The caller's context\<close>

text \<open>
  \<^verbatim>\<open>auth.Context\<close> of the core library: the session's two identities and the host of
  the request (\<^verbatim>\<open>c.Gin.Request.Host\<close>).
\<close>

record Session =
  Username :: string
  OnBehalfOf :: string

record Context =
  Session :: Session
  RequestHost :: string

subsection \<open>State, collaborators and the trace of actions\<close>

datatype event =
  EvStore string string addr
  | EvDelete string string
  | EvAdapterConnect addr
  | EvAdapterDisconnect addr
  | EvPublish ConnectionChangeSystemMessage
  | EvLogError go_error

text \<open>
  \<open>registry\<close> is \<^verbatim>\<open>userConnections.m\<close>, \<open>heap\<close> the store of contexts and \<open>fresh\<close> the
  next unused address. \<open>trace\<close> records, in program order, the writes to an inner map
  and the calls to the collaborators.
\<close>

record state =
  registry :: "(string, UserConnections) gomap"
  heap :: "addr \<Rightarrow> ConnectionContext"
  fresh :: addr
  trace :: "event list"

text \<open>
  The collaborators are parameters: the adapter catalog (the package variable
  \<^verbatim>\<open>adapters\<close>), the constructor and the methods of a context that call into the
  adapter, and \<^verbatim>\<open>msg.SendMessage\<close>. A method that changes the context returns the
  changed context with its result. Nothing is assumed of them.
\<close>

record env =
  adapters :: "string \<Rightarrow> AdapterInfo option"
  NewConnectionContext ::
    "string \<Rightarrow> string \<Rightarrow> string \<Rightarrow> AdapterInfo \<Rightarrow> Params \<Rightarrow> Params
      \<Rightarrow> go_error + ConnectionContext"
  ctxConnect :: "ConnectionContext \<Rightarrow> (go_error + AdapterConnectionResult) \<times> ConnectionContext"
  ctxDisconnect :: "ConnectionContext \<Rightarrow> go_error option \<times> ConnectionContext"
  SendMessage :: "ConnectionChangeSystemMessage \<Rightarrow> go_error option"
  ctxGetRootSymbols :: "ConnectionContext \<Rightarrow> string \<Rightarrow> error + RootSymbol list"
  ctxGetRootSymbol :: "ConnectionContext \<Rightarrow> string \<Rightarrow> error + RootSymbol option"
  ctxGetInstruments :: "ConnectionContext \<Rightarrow> string \<Rightarrow> error + Instrument list"
  ctxGetPriceBars :: "ConnectionContext \<Rightarrow> string \<Rightarrow> int \<Rightarrow> error + PriceBars option"
  ctxGetAccounts :: "ConnectionContext \<Rightarrow> error + Account list"
  ctxTestAdapter :: "ConnectionContext \<Rightarrow> string \<Rightarrow> string \<Rightarrow> error + string"

subsection \<open>Private methods\<close>

text \<open>The struct literal \<^verbatim>\<open>ccm\<close> of \<^verbatim>\<open>sendConnectionChangeMessage\<close>.\<close>

definition changeMessage :: "ConnectionContext \<Rightarrow> ConnectionChangeSystemMessage" where
  "changeMessage ctx =
     \<lparr>ConnectionChangeSystemMessage.Username = ConnectionContext.Username ctx,
      ConnectionChangeSystemMessage.ConnectionCode = ConnectionContext.ConnectionCode ctx,
      ConnectionChangeSystemMessage.SystemCode = Code (GetAdapterInfo ctx),
      ConnectionChangeSystemMessage.Status = GetStatus ctx\<rparr>"

definition sendConnectionChangeMessage ::
  "env \<Rightarrow> Context \<Rightarrow> addr \<Rightarrow> state \<Rightarrow> go_error option \<times> state" where
  "sendConnectionChangeMessage e c a s =
     (let ccm = changeMessage (heap s a);
          s1 = s\<lparr>trace := trace s @ [EvPublish ccm]\<rparr>
      in case SendMessage e ccm of
           Some err \<Rightarrow> (Some err, s1\<lparr>trace := trace s1 @ [EvLogError err]\<rparr>)
         | None \<Rightarrow> (None, s1))"

definition getConnectionContext :: "Context \<Rightarrow> string \<Rightarrow> state \<Rightarrow> error + addr" where
  "getConnectionContext c connectionCode s =
     (let user = OnBehalfOf (Session c)
      in case map_of (registry s) user of
           None \<Rightarrow> Inl (NotFoundError (''Connection not found for user: '' @ user))
         | Some uc \<Rightarrow>
             (case map_of (contexts uc) connectionCode of
                None \<Rightarrow> Inl (NotFoundError (''Connection not found: '' @ connectionCode))
              | Some a \<Rightarrow> Inr a))"

subsection \<open>Public methods\<close>

text \<open>The struct literal \<^verbatim>\<open>ci\<close> of \<^verbatim>\<open>GetConnections\<close>.\<close>

definition connectionInfo :: "ConnectionContext \<Rightarrow> ConnectionInfo" where
  "connectionInfo ctx =
     \<lparr>ConnectionInfo.Username = ConnectionContext.Username ctx,
      ConnectionInfo.ConnectionCode = ConnectionContext.ConnectionCode ctx,
      ConnectionInfo.SystemCode = Code (GetAdapterInfo ctx),
      ConnectionInfo.SystemName = Name (GetAdapterInfo ctx)\<rparr>"

definition GetConnections ::
  "Context \<Rightarrow> Params \<Rightarrow> int \<Rightarrow> int \<Rightarrow> state \<Rightarrow> ConnectionInfo list" where
  "GetConnections c filter_arg offset limit s =
     (case map_of (registry s) (Session.Username (Session c)) of
        Some uc \<Rightarrow> map (\<lambda>(code, a). connectionInfo (heap s a)) (contexts uc)
      | None \<Rightarrow> [])"

definition GetConnectionsToRefresh :: "state \<Rightarrow> addr list" where
  "GetConnectionsToRefresh s =
     concat (map (\<lambda>(user, uc).
                    filter (\<lambda>a. NeedsRefresh (heap s a)) (map snd (contexts uc)))
                 (registry s))"

definition Connect ::
  "env \<Rightarrow> Context \<Rightarrow> string \<Rightarrow> ConnectionSpec \<Rightarrow> state \<Rightarrow> (error + ConnectionResult) \<times> state" where
  "Connect e c connectionCode cs s =
     (let user = Session.Username (Session c);
          (uc, s1) = (case map_of (registry s) user of
                        Some uc \<Rightarrow> (uc, s)
                      | None \<Rightarrow> (NewUserConnections,
                          s\<lparr>registry := AList.update user NewUserConnections (registry s)\<rparr>));
          live = (case map_of (contexts uc) connectionCode of
                    Some a \<Rightarrow>
                      if IsConnected (heap s1 a) then
                        Some \<lparr>ConnectionResult.Status = Some ConnectionStatusConnected,
                              Action = None, Message = ''Already connected''\<rparr>
                      else if IsConnecting (heap s1 a) then
                        Some \<lparr>ConnectionResult.Status = Some ConnectionStatusConnecting,
                              Action = None, Message = ''Still connecting''\<rparr>
                      else None
                  | None \<Rightarrow> None)
      in case live of
           Some r \<Rightarrow> (Inr r, s1)
         | None \<Rightarrow>
            (case adapters e (ConnectionSpec.SystemCode cs) of
               None \<Rightarrow>
                 (Inl (NotFoundError (''System not found: '' @ ConnectionSpec.SystemCode cs)), s1)
             | Some ad \<Rightarrow>
                (case NewConnectionContext e user connectionCode (RequestHost c) ad
                        (ConfigParams cs) (ConnectParams cs) of
                   Inl err \<Rightarrow>
                     (Inr \<lparr>ConnectionResult.Status = Some ConnectionStatusError,
                           Action = None, Message = err\<rparr>, s1)
                 | Inr ctx \<Rightarrow>
                    (let a = fresh s1;
                         s2 = s1\<lparr>heap := (heap s1)(a := ctx), fresh := Suc a,
                                 registry := AList.update user
                                   (uc\<lparr>contexts := AList.update connectionCode a (contexts uc)\<rparr>)
                                   (registry s1),
                                 trace := trace s1 @ [EvStore user connectionCode a]\<rparr>;
                         res = \<lparr>ConnectionResult.Status = Some ConnectionStatusError,
                                Action = Some ConnectionActionNone, Message = []\<rparr>;
                         (cr, ctx') = ctxConnect e (heap s2 a);
                         s3 = s2\<lparr>heap := (heap s2)(a := ctx'),
                                 trace := trace s2 @ [EvAdapterConnect a]\<rparr>
                     in case cr of
                          Inl err \<Rightarrow> (Inr (res\<lparr>Message := err\<rparr>), s3)
                        | Inr r \<Rightarrow>
                           (case sendConnectionChangeMessage e c a s3 of
                              (Some err, s4) \<Rightarrow>
                                (Inr \<lparr>ConnectionResult.Status = None, Action = None,
                                      Message = err\<rparr>, s4)
                            | (None, s4) \<Rightarrow>
                                (Inr (case r of
                                        ConnectionResultConnected \<Rightarrow>
                                          res\<lparr>ConnectionResult.Status := Some ConnectionStatusConnected\<rparr>
                                      | ConnectionResultOpenUrl \<Rightarrow>
                                          res\<lparr>ConnectionResult.Status := Some ConnectionStatusConnecting,
                                              Action := Some ConnectionActionOpenUrl,
                                              Message := GetAdapterAuthUrl (heap s4 a)\<rparr>
                                      | ConnectionResultProxyUrl \<Rightarrow>
                                          res\<lparr>ConnectionResult.Status := Some ConnectionStatusConnecting,
                                              Action := Some ConnectionActionOpenUrl,
                                              Message :=
                                                ''https://tradalia-server:8449/api/system/v1/weblogin/''
                                                @ user @ ''/'' @ connectionCode @ ''/login''\<rparr>
                                      | ConnectionResultOther \<Rightarrow> res), s4))))))"

definition Disconnect ::
  "env \<Rightarrow> Context \<Rightarrow> string \<Rightarrow> state \<Rightarrow> error option \<times> state" where
  "Disconnect e c connectionCode s =
     (let user = Session.Username (Session c)
      in case map_of (registry s) user of
           None \<Rightarrow> (Some (NotFoundError (''Connection not found for user: '' @ user)), s)
         | Some uc \<Rightarrow>
            (case map_of (contexts uc) connectionCode of
               None \<Rightarrow> (Some (NotFoundError (''Connection not found: '' @ connectionCode)), s)
             | Some a \<Rightarrow>
                 if IsDisconnected (heap s a) then (None, s)
                 else
                   (case sendConnectionChangeMessage e c a s of
                      (Some err, s1) \<Rightarrow> (Some (ServerError err), s1)
                    | (None, s1) \<Rightarrow>
                       (let s2 = s1\<lparr>registry := AList.update user
                                       (uc\<lparr>contexts := AList.delete connectionCode (contexts uc)\<rparr>)
                                       (registry s1),
                                     trace := trace s1 @ [EvDelete user connectionCode]\<rparr>;
                            (err, ctx') = ctxDisconnect e (heap s2 a)
                        in (None, s2\<lparr>heap := (heap s2)(a := ctx'),
                                      trace := trace s2 @ [EvAdapterDisconnect a]\<rparr>)))))"

subsection \<open>Services\<close>

definition GetRootSymbols ::
  "env \<Rightarrow> Context \<Rightarrow> string \<Rightarrow> string \<Rightarrow> state \<Rightarrow> error + RootSymbol list" where
  "GetRootSymbols e c connectionCode filter_arg s =
     (case getConnectionContext c connectionCode s of
        Inl err \<Rightarrow> Inl err
      | Inr a \<Rightarrow> ctxGetRootSymbols e (heap s a) filter_arg)"

definition GetRootSymbol ::
  "env \<Rightarrow> Context \<Rightarrow> string \<Rightarrow> string \<Rightarrow> state \<Rightarrow> error + RootSymbol option" where
  "GetRootSymbol e c connectionCode root s =
     (case getConnectionContext c connectionCode s of
        Inl err \<Rightarrow> Inl err
      | Inr a \<Rightarrow> ctxGetRootSymbol e (heap s a) root)"

definition GetInstruments ::
  "env \<Rightarrow> Context \<Rightarrow> string \<Rightarrow> string \<Rightarrow> state \<Rightarrow> error + Instrument list" where
  "GetInstruments e c connectionCode root s =
     (case getConnectionContext c connectionCode s of
        Inl err \<Rightarrow> Inl err
      | Inr a \<Rightarrow> ctxGetInstruments e (heap s a) root)"

definition GetPriceBars ::
  "env \<Rightarrow> Context \<Rightarrow> string \<Rightarrow> string \<Rightarrow> int \<Rightarrow> state \<Rightarrow> error + PriceBars option" where
  "GetPriceBars e c connectionCode symbol date s =
     (case getConnectionContext c connectionCode s of
        Inl err \<Rightarrow> Inl err
      | Inr a \<Rightarrow> ctxGetPriceBars e (heap s a) symbol date)"

definition GetAccounts ::
  "env \<Rightarrow> Context \<Rightarrow> string \<Rightarrow> state \<Rightarrow> error + Account list" where
  "GetAccounts e c connectionCode s =
     (case getConnectionContext c connectionCode s of
        Inl err \<Rightarrow> Inl err
      | Inr a \<Rightarrow> ctxGetAccounts e (heap s a))"

definition TestAdapter ::
  "env \<Rightarrow> Context \<Rightarrow> string \<Rightarrow> TestAdapterRequest \<Rightarrow> state \<Rightarrow> error + string" where
  "TestAdapter e c connectionCode tar s =
     (let user = Session.Username (Session c)
      in case map_of (registry s) user of
           None \<Rightarrow> Inl (NotFoundError (''Connection not found for user: '' @ user))
         | Some uc \<Rightarrow>
             (case map_of (contexts uc) connectionCode of
                None \<Rightarrow> Inl (NotFoundError (''Connection not found: '' @ connectionCode))
              | Some a \<Rightarrow> ctxTestAdapter e (heap s a) (Service tar) (Query tar)))"

subsection \<open>Observations on the state\<close>

text \<open>
  The context stored for a (user, code) pair, if any; whether a live one (Connected or
  Connecting) is stored; and the representation invariant of the registry: keys are
  distinct in the outer and in every inner map, and every stored address has been
  allocated.
\<close>

definition context_of :: "state \<Rightarrow> string \<Rightarrow> string \<Rightarrow> addr option" where
  "context_of s user code =
     (case map_of (registry s) user of
        None \<Rightarrow> None
      | Some uc \<Rightarrow> map_of (contexts uc) code)"

definition live_context :: "state \<Rightarrow> string \<Rightarrow> string \<Rightarrow> bool" where
  "live_context s user code =
     (case context_of s user code of
        None \<Rightarrow> False
      | Some a \<Rightarrow> IsConnected (heap s a) \<or> IsConnecting (heap s a))"

definition wf_registry :: "state \<Rightarrow> bool" where
  "wf_registry s =
     (distinct (map fst (registry s)) \<and>
      list_all (\<lambda>(user, uc). distinct (map fst (contexts uc)) \<and>
                                list_all (\<lambda>(code, a). a < fresh s) (contexts uc))
               (registry s))"

text \<open>
  The states Connect passes through: after the entry for a first-time caller has been
  added; after the new context has been stored; and after the adapter's connect
  primitive has returned the context \<open>ctx\<close>, with the events \<open>evs\<close> that follow it.
\<close>

definition entered :: "string \<Rightarrow> state \<Rightarrow> state" where
  "entered user s =
     (case map_of (registry s) user of
        Some uc \<Rightarrow> s
      | None \<Rightarrow> s\<lparr>registry := AList.update user NewUserConnections (registry s)\<rparr>)"

definition stored :: "string \<Rightarrow> string \<Rightarrow> ConnectionContext \<Rightarrow> state \<Rightarrow> state" where
  "stored user code ctx s =
     (let uc = (case map_of (registry s) user of Some uc \<Rightarrow> uc | None \<Rightarrow> NewUserConnections)
      in s\<lparr>heap := (heap s)(fresh s := ctx), fresh := Suc (fresh s),
           registry := AList.update user
                         (uc\<lparr>contexts := AList.update code (fresh s) (contexts uc)\<rparr>)
                         (registry s),
           trace := trace s @ [EvStore user code (fresh s)]\<rparr>)"

definition connected :: "addr \<Rightarrow> ConnectionContext \<Rightarrow> event list \<Rightarrow> state \<Rightarrow> state" where
  "connected a ctx evs s =
     s\<lparr>heap := (heap s)(a := ctx), trace := trace s @ EvAdapterConnect a # evs\<rparr>"

definition is_NotFound :: "error + 'a \<Rightarrow> bool" where
  "is_NotFound r = (case r of Inl (NotFoundError msg) \<Rightarrow> True | _ \<Rightarrow> False)"

text \<open>One state-changing call of the service: the reads return no state.\<close>

inductive step :: "state \<Rightarrow> state \<Rightarrow> bool" where
  step_Connect: "step s (snd (Connect e c connectionCode cs s))"
| step_Disconnect: "step s (snd (Disconnect e c connectionCode s))"

text \<open>
  Consecutive Connect calls for one connection code, in the order in which the write
  lock admits them. Each call comes with its own caller context, specification and
  collaborators; the results are listed in call order.
\<close>

fun Connects ::
  "(env \<times> Context \<times> ConnectionSpec) list \<Rightarrow> string \<Rightarrow> state
    \<Rightarrow> (error + ConnectionResult) list \<times> state" where
  "Connects [] connectionCode s = ([], s)"
| "Connects ((e, c, cs) # calls) connectionCode s =
     (let (r, s1) = Connect e c connectionCode cs s;
          (rs, s2) = Connects calls connectionCode s1
      in (r # rs, s2))"

text \<open>The number of invocations of the adapter's connect primitive a trace records.\<close>

fun is_AdapterConnect :: "event \<Rightarrow> bool" where
  "is_AdapterConnect (EvAdapterConnect a) = True"
| "is_AdapterConnect ev = False"

definition adapter_connects :: "event list \<Rightarrow> nat" where
  "adapter_connects evs = length (filter is_AdapterConnect evs)"

subsection \<open>Concrete inputs\<close>

definition broker_x :: AdapterInfo where
  "broker_x = \<lparr>Code = ''broker-x'', Name = ''Broker X''\<rparr>"

definition ctx_of :: "string \<Rightarrow> string \<Rightarrow> ContextStatus \<Rightarrow> bool \<Rightarrow> ConnectionContext" where
  "ctx_of user code st r =
     \<lparr>ConnectionContext.Username = user, ConnectionContext.ConnectionCode = code,
      adapterInfo = broker_x, status = st, authUrl = ''https://auth.example/x'',
      needsRefresh = r\<rparr>"

definition c_alice :: Context where
  "c_alice = \<lparr>Session = \<lparr>Session.Username = ''alice'', OnBehalfOf = ''bob''\<rparr>,
              RequestHost = ''broker.example''\<rparr>"

definition c_carol :: Context where
  "c_carol = \<lparr>Session = \<lparr>Session.Username = ''carol'', OnBehalfOf = ''alice''\<rparr>,
              RequestHost = ''broker.example''\<rparr>"

definition c_bob :: Context where
  "c_bob = \<lparr>Session = \<lparr>Session.Username = ''bob'', OnBehalfOf = ''bob''\<rparr>,
            RequestHost = ''broker.example''\<rparr>"

definition cs_x :: ConnectionSpec where
  "cs_x = \<lparr>ConnectionSpec.SystemCode = ''broker-x'', ConfigParams = [], ConnectParams = []\<rparr>"

definition cs_unknown :: ConnectionSpec where
  "cs_unknown = \<lparr>ConnectionSpec.SystemCode = ''nowhere'', ConfigParams = [], ConnectParams = []\<rparr>"

text \<open>
  An environment in which everything succeeds (the adapter disconnect apart, whose
  error the source drops), one whose message bus fails, one whose adapter rejects the
  connect and one whose context constructor fails.
\<close>

definition e_ok :: env where
  "e_ok =
     \<lparr>adapters = (\<lambda>sc. if sc = ''broker-x'' then Some broker_x else None),
      NewConnectionContext = (\<lambda>user code host ad cfg con.
         Inr (ctx_of user code ContextStatusDisconnected False)),
      ctxConnect = (\<lambda>ctx. (Inr ConnectionResultConnected, ctx\<lparr>status := ContextStatusConnected\<rparr>)),
      ctxDisconnect = (\<lambda>ctx. (Some ''upstream gone'', ctx\<lparr>status := ContextStatusDisconnected\<rparr>)),
      SendMessage = (\<lambda>ccm. None),
      ctxGetRootSymbols = (\<lambda>ctx f. Inr []),
      ctxGetRootSymbol = (\<lambda>ctx r. Inr None),
      ctxGetInstruments = (\<lambda>ctx r. Inr []),
      ctxGetPriceBars = (\<lambda>ctx sym d. Inr None),
      ctxGetAccounts = (\<lambda>ctx. Inr []),
      ctxTestAdapter = (\<lambda>ctx svc q. Inr (svc @ q))\<rparr>"

definition e_pubfail :: env where
  "e_pubfail = e_ok\<lparr>SendMessage := (\<lambda>ccm. Some ''bus down'')\<rparr>"

definition e_fail :: env where
  "e_fail = e_ok\<lparr>ctxConnect :=
     (\<lambda>ctx. (Inl ''login rejected'', ctx\<lparr>status := ContextStatusError\<rparr>))\<rparr>"

definition e_noctx :: env where
  "e_noctx = e_ok\<lparr>NewConnectionContext := (\<lambda>user code host ad cfg con. Inl ''bad config'')\<rparr>"

definition s_empty :: state where
  "s_empty = \<lparr>registry = [], heap = (\<lambda>a. ctx_of [] [] ContextStatusDisconnected False),
              fresh = 0, trace = []\<rparr>"

text \<open>
  Three users: alice holds a Connected and a Connecting context, bob a Disconnected
  one, carol one in Error status; two of the four are due for a refresh.
\<close>

definition s_three :: state where
  "s_three =
     \<lparr>registry =
        [(''alice'', \<lparr>contexts = [(''main'', 0), (''aux'', 1)]\<rparr>),
         (''bob'', \<lparr>contexts = [(''main'', 2)]\<rparr>),
         (''carol'', \<lparr>contexts = [(''main'', 3)]\<rparr>)],
      heap = (\<lambda>a. if a = 0 then ctx_of ''alice'' ''main'' ContextStatusConnected False
                   else if a = 1 then ctx_of ''alice'' ''aux'' ContextStatusConnecting True
                   else if a = 2 then ctx_of ''bob'' ''main'' ContextStatusDisconnected False
                   else ctx_of ''carol'' ''main'' ContextStatusError True),
      fresh = 4, trace = []\<rparr>"

section \<open>Lookups after an update\<close>

lemma context_of_update_user [simp]:
  "context_of (s\<lparr>registry := AList.update user uc (registry s)\<rparr>) u k =
     (if u = user then map_of (contexts uc) k else context_of s u k)"
  by (simp add: context_of_def update_conv')

lemma context_of_trace [simp]: "context_of (s\<lparr>trace := t\<rparr>) u k = context_of s u k"
  by (simp add: context_of_def)

lemma context_of_heap [simp]: "context_of (s\<lparr>heap := h\<rparr>) u k = context_of s u k"
  by (simp add: context_of_def)

lemma context_of_fresh [simp]: "context_of (s\<lparr>fresh := n\<rparr>) u k = context_of s u k"
  by (simp add: context_of_def)

lemma context_of_entered [simp]: "context_of (entered user s) u k = context_of s u k"
  by (auto simp: entered_def context_of_def update_conv' NewUserConnections_def
      split: option.splits)

lemma trace_entered [simp]: "trace (entered user s) = trace s"
  by (simp add: entered_def split: option.splits)

lemma context_of_stored [simp]:
  "context_of (stored user code ctx s) u k =
     (if u = user \<and> k = code then Some (fresh s) else context_of s u k)"
  by (auto simp: stored_def context_of_def Let_def update_conv' NewUserConnections_def
      split: option.splits)

lemma trace_stored [simp]:
  "trace (stored user code ctx s) = trace s @ [EvStore user code (fresh s)]"
  by (simp add: stored_def Let_def)

lemma heap_stored [simp]: "heap (stored user code ctx s) = (heap s)(fresh s := ctx)"
  by (simp add: stored_def Let_def)

lemma context_of_connected [simp]: "context_of (connected a ctx evs s) u k = context_of s u k"
  by (simp add: connected_def)

lemma trace_connected [simp]:
  "trace (connected a ctx evs s) = trace s @ EvAdapterConnect a # evs"
  by (simp add: connected_def)

lemma heap_connected [simp]: "heap (connected a ctx evs s) = (heap s)(a := ctx)"
  by (simp add: connected_def)

lemma heap_entered [simp]: "heap (entered user s) = heap s"
  by (simp add: entered_def split: option.splits)

lemma fresh_entered [simp]: "fresh (entered user s) = fresh s"
  by (simp add: entered_def split: option.splits)

lemma adapter_connects_append [simp]:
  "adapter_connects (xs @ ys) = adapter_connects xs + adapter_connects ys"
  by (simp add: adapter_connects_def)

section \<open>The representation invariant\<close>

lemma wf_registry_iff:
  "wf_registry s \<longleftrightarrow>
     distinct (map fst (registry s)) \<and>
     (\<forall>user uc. (user, uc) \<in> set (registry s) \<longrightarrow>
        distinct (map fst (contexts uc)) \<and>
        (\<forall>code a. (code, a) \<in> set (contexts uc) \<longrightarrow> a < fresh s))"
  by (auto simp: wf_registry_def list_all_iff)

lemma wf_registry_stored:
  assumes "wf_registry s"
  shows "context_of s user code = Some a \<longleftrightarrow>
           (\<exists>uc. (user, uc) \<in> set (registry s) \<and> (code, a) \<in> set (contexts uc))"
proof -
  have d: "distinct (map fst (registry s))" using assms by (simp add: wf_registry_iff)
  show ?thesis
  proof
    assume "context_of s user code = Some a"
    then obtain uc where "map_of (registry s) user = Some uc" "map_of (contexts uc) code = Some a"
      by (auto simp: context_of_def split: option.splits)
    then show "\<exists>uc. (user, uc) \<in> set (registry s) \<and> (code, a) \<in> set (contexts uc)"
      by (blast dest: map_of_SomeD)
  next
    assume "\<exists>uc. (user, uc) \<in> set (registry s) \<and> (code, a) \<in> set (contexts uc)"
    then obtain uc where uc: "(user, uc) \<in> set (registry s)" "(code, a) \<in> set (contexts uc)"
      by blast
    with assms have "distinct (map fst (contexts uc))" by (simp add: wf_registry_iff)
    with uc d show "context_of s user code = Some a" by (simp add: context_of_def)
  qed
qed

lemma wf_registry_allocated:
  "wf_registry s \<Longrightarrow> context_of s user code = Some a \<Longrightarrow> a < fresh s"
  by (auto simp: wf_registry_stored) (auto simp: wf_registry_iff)

text \<open>
  The empty registry is well formed and both state-changing calls keep it so: the
  hypothesis of the two snapshot theorems holds of every state the service reaches.
\<close>

lemma in_set_updateD:
  "(k', v') \<in> set (AList.update k v al) \<Longrightarrow> (k', v') = (k, v) \<or> (k', v') \<in> set al"
  by (induction al) (auto split: if_splits)

lemma in_set_deleteD: "(k', v') \<in> set (AList.delete k al) \<Longrightarrow> (k', v') \<in> set al"
  by (simp add: AList.delete_eq)

lemma wf_registry_empty: "wf_registry s_empty"
  by (simp add: wf_registry_def s_empty_def)

section \<open>The paths of Connect\<close>

lemma Connect_live:
  assumes "context_of s (Session.Username (Session c)) connectionCode = Some a"
    and "IsConnected (heap s a) \<or> IsConnecting (heap s a)"
  shows "snd (Connect e c connectionCode cs s) = s"
  using assms
  by (auto simp: Connect_def context_of_def Let_def split: option.splits)

lemma Connect_unknown_system:
  assumes "\<not> live_context s (Session.Username (Session c)) connectionCode"
    and "adapters e (ConnectionSpec.SystemCode cs) = None"
  shows "Connect e c connectionCode cs s =
     (Inl (NotFoundError (''System not found: '' @ ConnectionSpec.SystemCode cs)),
      entered (Session.Username (Session c)) s)"
  using assms
  by (auto simp: Connect_def live_context_def context_of_def Let_def NewUserConnections_def
        entered_def split: option.splits)

lemma Connect_constructor_fails:
  assumes "\<not> live_context s (Session.Username (Session c)) connectionCode"
    and "adapters e (ConnectionSpec.SystemCode cs) = Some ad"
    and "NewConnectionContext e (Session.Username (Session c)) connectionCode (RequestHost c) ad
     (ConfigParams cs) (ConnectParams cs) = Inl err"
  shows "Connect e c connectionCode cs s =
     (Inr \<lparr>ConnectionResult.Status = Some ConnectionStatusError, Action = None, Message = err\<rparr>,
      entered (Session.Username (Session c)) s)"
  using assms
  by (auto simp: Connect_def live_context_def context_of_def Let_def NewUserConnections_def
        entered_def split: option.splits)

lemma Connect_adapter_fails:
  assumes "\<not> live_context s (Session.Username (Session c)) connectionCode"
    and "adapters e (ConnectionSpec.SystemCode cs) = Some ad"
    and "NewConnectionContext e (Session.Username (Session c)) connectionCode (RequestHost c) ad
     (ConfigParams cs) (ConnectParams cs) = Inr ctx"
    and "ctxConnect e ctx = (Inl err, ctx')"
  shows "Connect e c connectionCode cs s =
     (Inr \<lparr>ConnectionResult.Status = Some ConnectionStatusError,
           Action = Some ConnectionActionNone, Message = err\<rparr>,
      connected (fresh s) ctx' [] (stored (Session.Username (Session c)) connectionCode ctx s))"
  using assms
  by (auto simp: Connect_def live_context_def context_of_def Let_def NewUserConnections_def
        stored_def connected_def split: option.splits)

lemma Connect_publish_fails:
  assumes "\<not> live_context s (Session.Username (Session c)) connectionCode"
    and "adapters e (ConnectionSpec.SystemCode cs) = Some ad"
    and "NewConnectionContext e (Session.Username (Session c)) connectionCode (RequestHost c) ad
     (ConfigParams cs) (ConnectParams cs) = Inr ctx"
    and "ctxConnect e ctx = (Inr r, ctx')"
    and "SendMessage e (changeMessage ctx') = Some err"
  shows "Connect e c connectionCode cs s =
     (Inr \<lparr>ConnectionResult.Status = None, Action = None, Message = err\<rparr>,
      connected (fresh s) ctx' [EvPublish (changeMessage ctx'), EvLogError err]
        (stored (Session.Username (Session c)) connectionCode ctx s))"
  using assms
  by (auto simp: Connect_def live_context_def context_of_def Let_def NewUserConnections_def
        stored_def connected_def sendConnectionChangeMessage_def split: option.splits)

lemma Connect_published:
  assumes "\<not> live_context s (Session.Username (Session c)) connectionCode"
    and "adapters e (ConnectionSpec.SystemCode cs) = Some ad"
    and "NewConnectionContext e (Session.Username (Session c)) connectionCode (RequestHost c) ad
     (ConfigParams cs) (ConnectParams cs) = Inr ctx"
    and "ctxConnect e ctx = (Inr r, ctx')"
    and "SendMessage e (changeMessage ctx') = None"
  shows "snd (Connect e c connectionCode cs s) =
      connected (fresh s) ctx' [EvPublish (changeMessage ctx')]
        (stored (Session.Username (Session c)) connectionCode ctx s)"
  using assms
  by (auto simp: Connect_def live_context_def context_of_def Let_def NewUserConnections_def
        stored_def connected_def sendConnectionChangeMessage_def split: option.splits)

lemma Connect_stored:
  assumes "\<not> live_context s (Session.Username (Session c)) connectionCode"
    and "adapters e (ConnectionSpec.SystemCode cs) = Some ad"
    and "NewConnectionContext e (Session.Username (Session c)) connectionCode (RequestHost c) ad
     (ConfigParams cs) (ConnectParams cs) = Inr ctx"
  shows "\<exists>evs. snd (Connect e c connectionCode cs s) =
           connected (fresh s) (snd (ctxConnect e ctx)) evs
             (stored (Session.Username (Session c)) connectionCode ctx s)"
proof -
  obtain cr ctx' where k: "ctxConnect e ctx = (cr, ctx')" by (cases "ctxConnect e ctx")
  show ?thesis
  proof (cases cr)
    case (Inl err)
    with assms k show ?thesis by (auto simp: Connect_adapter_fails)
  next
    case r: (Inr r)
    show ?thesis
    proof (cases "SendMessage e (changeMessage ctx')")
      case None
      with assms k r show ?thesis by (auto simp: Connect_published)
    next
      case (Some err)
      with assms k r show ?thesis by (auto simp: Connect_publish_fails)
    qed
  qed
qed

lemma Connect_short:
  assumes "context_of s (Session.Username (Session c)) connectionCode = Some a"
    and "IsConnected (heap s a) \<or> IsConnecting (heap s a)"
  shows "Connect e c connectionCode cs s =
           (Inr (if IsConnected (heap s a)
                 then \<lparr>ConnectionResult.Status = Some ConnectionStatusConnected,
                       Action = None, Message = ''Already connected''\<rparr>
                 else \<lparr>ConnectionResult.Status = Some ConnectionStatusConnecting,
                       Action = None, Message = ''Still connecting''\<rparr>), s)"
  using assms
  by (auto simp: Connect_def context_of_def Let_def split: option.splits)

lemma Connect_stored_once:
  assumes "\<not> live_context s (Session.Username (Session c)) connectionCode"
    and "adapters e (ConnectionSpec.SystemCode cs) = Some ad"
    and "NewConnectionContext e (Session.Username (Session c)) connectionCode (RequestHost c) ad
     (ConfigParams cs) (ConnectParams cs) = Inr ctx"
  shows "adapter_connects (trace (snd (Connect e c connectionCode cs s)))
           = adapter_connects (trace s) + 1"
proof -
  obtain cr ctx' where k: "ctxConnect e ctx = (cr, ctx')" by (cases "ctxConnect e ctx")
  show ?thesis
  proof (cases cr)
    case (Inl err)
    with assms k show ?thesis by (simp add: Connect_adapter_fails adapter_connects_def)
  next
    case r: (Inr r)
    show ?thesis
    proof (cases "SendMessage e (changeMessage ctx')")
      case None
      with assms k r show ?thesis by (simp add: Connect_published adapter_connects_def)
    next
      case (Some err)
      with assms k r show ?thesis by (simp add: Connect_publish_fails adapter_connects_def)
    qed
  qed
qed

lemma Connects_live:
  assumes "context_of s user connectionCode = Some a"
    and "IsConnected (heap s a) \<or> IsConnecting (heap s a)"
    and "\<forall>(e, c, cs) \<in> set calls. Session.Username (Session c) = user"
  shows "Connects calls connectionCode s =
           (replicate (length calls)
              (Inr (if IsConnected (heap s a)
                    then \<lparr>ConnectionResult.Status = Some ConnectionStatusConnected,
                          Action = None, Message = ''Already connected''\<rparr>
                    else \<lparr>ConnectionResult.Status = Some ConnectionStatusConnecting,
                          Action = None, Message = ''Still connecting''\<rparr>)), s)"
  using assms(3)
proof (induction calls)
  case Nil
  show ?case by simp
next
  case (Cons call calls)
  obtain e c cs where call: "call = (e, c, cs)" by (cases call)
  with Cons.prems have u: "Session.Username (Session c) = user" by simp
  from Cons have rest: "Connects calls connectionCode s =
           (replicate (length calls)
              (Inr (if IsConnected (heap s a)
                    then \<lparr>ConnectionResult.Status = Some ConnectionStatusConnected,
                          Action = None, Message = ''Already connected''\<rparr>
                    else \<lparr>ConnectionResult.Status = Some ConnectionStatusConnecting,
                          Action = None, Message = ''Still connecting''\<rparr>)), s)"
    by simp
  from assms(1,2) u have "Connect e c connectionCode cs s =
           (Inr (if IsConnected (heap s a)
                 then \<lparr>ConnectionResult.Status = Some ConnectionStatusConnected,
                       Action = None, Message = ''Already connected''\<rparr>
                 else \<lparr>ConnectionResult.Status = Some ConnectionStatusConnecting,
                       Action = None, Message = ''Still connecting''\<rparr>), s)"
    by (intro Connect_short) simp_all
  with rest call show ?case by simp
qed

lemma Connect_stores_for_caller:
  assumes "\<not> live_context s (Session.Username (Session c)) connectionCode"
    and "adapters e (ConnectionSpec.SystemCode cs) = Some ad"
    and "NewConnectionContext e (Session.Username (Session c)) connectionCode (RequestHost c) ad
     (ConfigParams cs) (ConnectParams cs) = Inr ctx"
  shows "context_of (snd (Connect e c connectionCode cs s))
           (Session.Username (Session c)) connectionCode = Some (fresh s)
         \<and> heap (snd (Connect e c connectionCode cs s)) (fresh s) = snd (ctxConnect e ctx)"
proof -
  from Connect_stored [OF assms] obtain evs where
    "snd (Connect e c connectionCode cs s) =
       connected (fresh s) (snd (ctxConnect e ctx)) evs
         (stored (Session.Username (Session c)) connectionCode ctx s)" ..
  then show ?thesis by simp
qed

lemma Connect_shape:
  "(live_context s (Session.Username (Session c)) connectionCode
      \<and> snd (Connect e c connectionCode cs s) = s)
   \<or> snd (Connect e c connectionCode cs s) = entered (Session.Username (Session c)) s
   \<or> (\<exists>ctx ctx' evs. snd (Connect e c connectionCode cs s) =
         connected (fresh s) ctx' evs (stored (Session.Username (Session c)) connectionCode ctx s))"
proof (cases "live_context s (Session.Username (Session c)) connectionCode")
  case True
  then obtain a where "context_of s (Session.Username (Session c)) connectionCode = Some a"
    "IsConnected (heap s a) \<or> IsConnecting (heap s a)"
    by (auto simp: live_context_def split: option.splits)
  with True show ?thesis by (simp add: Connect_live)
next
  case False
  show ?thesis
  proof (cases "adapters e (ConnectionSpec.SystemCode cs)")
    case None
    with False show ?thesis by (simp add: Connect_unknown_system)
  next
    case (Some ad)
    show ?thesis
    proof (cases "NewConnectionContext e (Session.Username (Session c)) connectionCode
                    (RequestHost c) ad (ConfigParams cs) (ConnectParams cs)")
      case (Inl err)
      with False Some show ?thesis by (simp add: Connect_constructor_fails)
    next
      case (Inr ctx)
      obtain cr ctx' where k: "ctxConnect e ctx = (cr, ctx')" by (cases "ctxConnect e ctx")
      show ?thesis
      proof (cases cr)
        case (Inl err)
        with False Some Inr k show ?thesis by (auto simp: Connect_adapter_fails)
      next
        case r: (Inr r)
        show ?thesis
        proof (cases "SendMessage e (changeMessage ctx')")
          case None
          with False Some Inr k r show ?thesis by (auto simp: Connect_published)
        next
          case p: (Some err)
          with False Some Inr k r show ?thesis by (auto simp: Connect_publish_fails)
        qed
      qed
    qed
  qed
qed

lemma registry_entered:
  "map_of (registry (entered user s)) u =
     (if u = user \<and> map_of (registry s) user = None then Some NewUserConnections
      else map_of (registry s) u)"
  by (auto simp: entered_def update_conv' split: option.splits)

lemma registry_connected_stored:
  "map_of (registry (connected a ctx' evs (stored user code ctx s))) u =
     (if u = user
      then Some ((case map_of (registry s) user of Some uc \<Rightarrow> uc | None \<Rightarrow> NewUserConnections)
                   \<lparr>contexts := AList.update code (fresh s)
                      (contexts (case map_of (registry s) user of
                                   Some uc \<Rightarrow> uc | None \<Rightarrow> NewUserConnections))\<rparr>)
      else map_of (registry s) u)"
  by (simp add: connected_def stored_def Let_def update_conv')

lemma Connect_keeps_users:
  "map_of (registry s) u \<noteq> None \<Longrightarrow>
   map_of (registry (snd (Connect e c connectionCode cs s))) u \<noteq> None"
  using Connect_shape [of s c connectionCode e cs]
  by (auto simp: registry_entered registry_connected_stored)

lemma Connect_enters_user:
  "map_of (registry (snd (Connect e c connectionCode cs s))) (Session.Username (Session c)) \<noteq> None"
  using Connect_shape [of s c connectionCode e cs]
  by (auto simp: registry_entered registry_connected_stored live_context_def context_of_def
      split: option.splits)

lemma Connect_same_caller:
  assumes "Session.Username (Session c') = Session.Username (Session c)"
    and "RequestHost c' = RequestHost c"
  shows "Connect e c' connectionCode cs s = Connect e c connectionCode cs s"
  unfolding Connect_def sendConnectionChangeMessage_def assms ..

text \<open>
  The empty registry is well formed and both state-changing calls keep it so: the
  invariant holds of every state the service reaches.
\<close>

lemma wf_registry_Connect:
  assumes "wf_registry s"
  shows "wf_registry (snd (Connect e c connectionCode cs s))"
  using assms
  apply (simp add: Connect_def Let_def sendConnectionChangeMessage_def NewUserConnections_def split: option.splits sum.splits prod.splits)
  apply (auto simp: wf_registry_iff distinct_update update_conv' less_Suc_eq
        dest!: in_set_updateD dest: map_of_SomeD)
  done

section \<open>The paths of Disconnect\<close>

lemma sendConnectionChangeMessage_fail:
  "SendMessage e (changeMessage (heap s a)) = Some err \<Longrightarrow>
   sendConnectionChangeMessage e c a s =
     (Some err, s\<lparr>trace := trace s @ [EvPublish (changeMessage (heap s a)), EvLogError err]\<rparr>)"
  by (simp add: sendConnectionChangeMessage_def Let_def)

lemma sendConnectionChangeMessage_ok:
  "SendMessage e (changeMessage (heap s a)) = None \<Longrightarrow>
   sendConnectionChangeMessage e c a s =
     (None, s\<lparr>trace := trace s @ [EvPublish (changeMessage (heap s a))]\<rparr>)"
  by (simp add: sendConnectionChangeMessage_def Let_def)

lemma Disconnect_absent:
  "context_of s (Session.Username (Session c)) connectionCode = None \<Longrightarrow>
   Disconnect e c connectionCode s =
     (Some (NotFoundError
        (if map_of (registry s) (Session.Username (Session c)) = None
         then ''Connection not found for user: '' @ Session.Username (Session c)
         else ''Connection not found: '' @ connectionCode)), s)"
  by (auto simp: Disconnect_def context_of_def Let_def split: option.splits)

lemma Disconnect_disconnected:
  "context_of s (Session.Username (Session c)) connectionCode = Some a \<Longrightarrow>
   IsDisconnected (heap s a) \<Longrightarrow> Disconnect e c connectionCode s = (None, s)"
  by (auto simp: Disconnect_def context_of_def Let_def split: option.splits)

lemma Disconnect_publish_fails:
  "context_of s (Session.Username (Session c)) connectionCode = Some a \<Longrightarrow>
   \<not> IsDisconnected (heap s a) \<Longrightarrow>
   SendMessage e (changeMessage (heap s a)) = Some err \<Longrightarrow>
   Disconnect e c connectionCode s =
     (Some (ServerError err),
      s\<lparr>trace := trace s @ [EvPublish (changeMessage (heap s a)), EvLogError err]\<rparr>)"
  by (auto simp: Disconnect_def context_of_def Let_def sendConnectionChangeMessage_fail
      split: option.splits)

lemma Disconnect_removes:
  "map_of (registry s) (Session.Username (Session c)) = Some uc \<Longrightarrow>
   map_of (contexts uc) connectionCode = Some a \<Longrightarrow>
   \<not> IsDisconnected (heap s a) \<Longrightarrow>
   SendMessage e (changeMessage (heap s a)) = None \<Longrightarrow>
   Disconnect e c connectionCode s =
     (None,
      s\<lparr>registry := AList.update (Session.Username (Session c))
                       (uc\<lparr>contexts := AList.delete connectionCode (contexts uc)\<rparr>) (registry s),
        heap := (heap s)(a := snd (ctxDisconnect e (heap s a))),
        trace := trace s @ [EvPublish (changeMessage (heap s a)),
                            EvDelete (Session.Username (Session c)) connectionCode,
                            EvAdapterDisconnect a]\<rparr>)"
  by (simp add: Disconnect_def Let_def sendConnectionChangeMessage_ok split_def)

lemma Disconnect_present:
  assumes "context_of s (Session.Username (Session c)) connectionCode = Some a"
  shows "if IsDisconnected (heap s a) then Disconnect e c connectionCode s = (None, s)
         else (case SendMessage e (changeMessage (heap s a)) of
                 Some err \<Rightarrow>
                   fst (Disconnect e c connectionCode s) = Some (ServerError err)
                   \<and> context_of (snd (Disconnect e c connectionCode s))
                        (Session.Username (Session c)) connectionCode = Some a
               | None \<Rightarrow>
                   fst (Disconnect e c connectionCode s) = None
                   \<and> context_of (snd (Disconnect e c connectionCode s))
                        (Session.Username (Session c)) connectionCode = None
                   \<and> heap (snd (Disconnect e c connectionCode s)) a
                        = snd (ctxDisconnect e (heap s a)))"
proof (cases "IsDisconnected (heap s a)")
  case True
  with assms show ?thesis by (simp add: Disconnect_disconnected)
next
  case False
  from assms obtain uc where uc: "map_of (registry s) (Session.Username (Session c)) = Some uc"
    "map_of (contexts uc) connectionCode = Some a"
    by (auto simp: context_of_def split: option.splits)
  show ?thesis
  proof (cases "SendMessage e (changeMessage (heap s a))")
    case None
    with False show ?thesis
      by (simp add: Disconnect_removes [OF uc False None] context_of_def update_conv' delete_conv')
  next
    case (Some err)
    with False assms show ?thesis
      by (simp add: Disconnect_publish_fails [OF assms False Some])
  qed
qed

lemma wf_registry_Disconnect:
  assumes "wf_registry s"
  shows "wf_registry (snd (Disconnect e c connectionCode s))"
proof (cases "context_of s (Session.Username (Session c)) connectionCode")
  case None
  then show ?thesis using assms by (simp add: Disconnect_absent)
next
  case (Some a)
  show ?thesis
  proof (cases "IsDisconnected (heap s a)")
    case True
    with Some assms show ?thesis by (simp add: Disconnect_disconnected)
  next
    case False
    show ?thesis
    proof (cases "SendMessage e (changeMessage (heap s a))")
      case (Some err)
      with \<open>context_of s (Session.Username (Session c)) connectionCode = Some a\<close> False assms
      show ?thesis by (simp add: Disconnect_publish_fails wf_registry_def)
    next
      case None
      from \<open>context_of s (Session.Username (Session c)) connectionCode = Some a\<close>
      obtain uc where uc: "map_of (registry s) (Session.Username (Session c)) = Some uc"
        "map_of (contexts uc) connectionCode = Some a"
        by (auto simp: context_of_def split: option.splits)
      then have m: "(Session.Username (Session c), uc) \<in> set (registry s)"
        by (simp add: map_of_SomeD)
      show ?thesis
        using assms m
        by (simp add: Disconnect_removes [OF uc False None])
           (auto simp: wf_registry_iff distinct_update distinct_delete
                 dest!: in_set_updateD in_set_deleteD)
    qed
  qed
qed

lemma Disconnect_registry:
  assumes "map_of (registry s) (Session.Username (Session c)) = Some uc"
  shows "registry (snd (Disconnect e c connectionCode s)) = registry s
   \<or> registry (snd (Disconnect e c connectionCode s)) =
       AList.update (Session.Username (Session c))
         (uc\<lparr>contexts := AList.delete connectionCode (contexts uc)\<rparr>) (registry s)"
proof (cases "map_of (contexts uc) connectionCode")
  case None
  with assms have "context_of s (Session.Username (Session c)) connectionCode = None"
    by (simp add: context_of_def)
  then show ?thesis by (simp add: Disconnect_absent)
next
  case (Some a)
  with assms have k: "context_of s (Session.Username (Session c)) connectionCode = Some a"
    by (simp add: context_of_def)
  show ?thesis
  proof (cases "IsDisconnected (heap s a)")
    case True
    with k show ?thesis by (simp add: Disconnect_disconnected)
  next
    case False
    show ?thesis
    proof (cases "SendMessage e (changeMessage (heap s a))")
      case None
      show ?thesis by (simp add: Disconnect_removes [OF assms Some False None])
    next
      case p: (Some err)
      show ?thesis by (simp add: Disconnect_publish_fails [OF k False p])
    qed
  qed
qed

lemma Disconnect_keeps_users:
  assumes "map_of (registry s) u \<noteq> None"
  shows "map_of (registry (snd (Disconnect e c connectionCode s))) u \<noteq> None"
proof (cases "map_of (registry s) (Session.Username (Session c))")
  case None
  then have "context_of s (Session.Username (Session c)) connectionCode = None"
    by (simp add: context_of_def)
  then show ?thesis using assms by (simp add: Disconnect_absent)
next
  case (Some uc)
  from Disconnect_registry [OF Some, of e connectionCode] assms show ?thesis
    by (auto simp: update_conv')
qed

lemma Disconnect_same_caller:
  assumes "Session.Username (Session c') = Session.Username (Session c)"
  shows "Disconnect e c' connectionCode s = Disconnect e c connectionCode s"
  unfolding Disconnect_def sendConnectionChangeMessage_def assms ..

section \<open>Connect\<close>

text \<open>
  C4. When the registry already holds a context for the caller's (username, connection
  code) and that context is Connected or Connecting, Connect returns, with no error, the
  result "Already connected" with status Connected, or "Still connecting" with status
  Connecting. The state comes back as it was: nothing is appended to the trace, so the
  adapter's connect primitive is not invoked, and the registry is not modified.
\<close>

theorem Connect_short_circuit:
  assumes "context_of s (Session.Username (Session c)) connectionCode = Some a"
    and "IsConnected (heap s a) \<or> IsConnecting (heap s a)"
  shows "Connect e c connectionCode cs s =
           (Inr (if IsConnected (heap s a)
                 then \<lparr>ConnectionResult.Status = Some ConnectionStatusConnected,
                       Action = None, Message = ''Already connected''\<rparr>
                 else \<lparr>ConnectionResult.Status = Some ConnectionStatusConnecting,
                       Action = None, Message = ''Still connecting''\<rparr>), s)"
  using assms
  by (auto simp: Connect_def context_of_def Let_def split: option.splits)

theorem Connect_short_circuit_witness:
  "context_of s_three ''alice'' ''main'' = Some 0 \<and> IsConnected (heap s_three 0)
   \<and> Connect e_ok c_alice ''main'' cs_x s_three =
       (Inr \<lparr>ConnectionResult.Status = Some ConnectionStatusConnected,
             Action = None, Message = ''Already connected''\<rparr>, s_three)
   \<and> context_of s_three ''alice'' ''aux'' = Some 1 \<and> IsConnecting (heap s_three 1)
   \<and> Connect e_ok c_alice ''aux'' cs_x s_three =
       (Inr \<lparr>ConnectionResult.Status = Some ConnectionStatusConnecting,
             Action = None, Message = ''Still connecting''\<rparr>, s_three)"
proof -
  have u: "Session.Username (Session c_alice) = ''alice''" by (simp add: c_alice_def)
  have a0: "context_of s_three ''alice'' ''main'' = Some 0"
    by (simp add: context_of_def s_three_def)
  have a1: "context_of s_three ''alice'' ''aux'' = Some 1"
    by (simp add: context_of_def s_three_def)
  have h0: "IsConnected (heap s_three 0)"
    by (simp add: IsConnected_def s_three_def ctx_of_def)
  have h1: "IsConnecting (heap s_three 1)" "\<not> IsConnected (heap s_three 1)"
    by (simp_all add: IsConnecting_def IsConnected_def s_three_def ctx_of_def)
  from Connect_short_circuit [of s_three c_alice "''main''" 0 e_ok cs_x]
       Connect_short_circuit [of s_three c_alice "''aux''" 1 e_ok cs_x]
  show ?thesis using u a0 a1 h0 h1 by simp
qed

text \<open>
  C1. The claim has a Connect whose adapter connect succeeds and whose publication fails
  return a typed Server-Error. The source does not: on the empty registry, with an
  adapter that connects and a message bus that fails, Connect returns no error and a
  result that carries the text of the publish error, with neither status nor action
  set, while the context stays stored. Disconnect, on the same publish failure, does
  return the Server-Error.
\<close>

theorem Connect_publish_failure_returns_result:
  "context_of s_empty ''alice'' ''main'' = None
   \<and> fst (ctxConnect e_pubfail (ctx_of ''alice'' ''main'' ContextStatusDisconnected False))
       = Inr ConnectionResultConnected
   \<and> SendMessage e_pubfail
       (changeMessage (ctx_of ''alice'' ''main'' ContextStatusConnected False)) = Some ''bus down''
   \<and> fst (Connect e_pubfail c_alice ''main'' cs_x s_empty) =
       Inr \<lparr>ConnectionResult.Status = None, Action = None, Message = ''bus down''\<rparr>
   \<and> context_of (snd (Connect e_pubfail c_alice ''main'' cs_x s_empty)) ''alice'' ''main'' = Some 0
   \<and> trace (snd (Connect e_pubfail c_alice ''main'' cs_x s_empty)) =
       [EvStore ''alice'' ''main'' 0, EvAdapterConnect 0,
        EvPublish (changeMessage (ctx_of ''alice'' ''main'' ContextStatusConnected False)),
        EvLogError ''bus down'']
   \<and> fst (Disconnect e_pubfail c_alice ''main'' (snd (Connect e_ok c_alice ''main'' cs_x s_empty)))
       = Some (ServerError ''bus down'')"
  by (simp add: Connect_def Disconnect_def e_pubfail_def e_ok_def c_alice_def cs_x_def s_empty_def
     Let_def NewUserConnections_def sendConnectionChangeMessage_def context_of_def
     IsDisconnected_def ctx_of_def changeMessage_def)

text \<open>
  C5 (as amended). When Connect passes the short-circuit check (no context stored for the
  pair, or one that is neither Connected nor Connecting): an unknown system code fails
  with the Not-Found error naming the code; a known one whose context constructor fails
  returns a result with status Error and the constructor's message. In both cases no
  context is stored and no collaborator is called: every (user, code) pair holds what
  it held, the store and the trace are as before, and the only change the registry can
  show is the empty UserConnections of a first-time caller. When the constructor
  succeeds the new context is stored under the pair, and under no other, replacing
  whatever was stored there, before the adapter's connect primitive is invoked on it,
  once. In a well-formed registry the address of the new context is one that no entry
  held before.
\<close>

theorem Connect_fresh_handshake:
  assumes "\<not> live_context s user connectionCode"
    and "user = Session.Username (Session c)"
    and "s' = snd (Connect e c connectionCode cs s)"
  shows "case adapters e (ConnectionSpec.SystemCode cs) of
           None \<Rightarrow>
             fst (Connect e c connectionCode cs s) =
               Inl (NotFoundError (''System not found: '' @ ConnectionSpec.SystemCode cs))
             \<and> (\<forall>u k. context_of s' u k = context_of s u k)
             \<and> heap s' = heap s \<and> fresh s' = fresh s \<and> trace s' = trace s
             \<and> (\<forall>u. map_of (registry s') u =
                   (if u = user \<and> map_of (registry s) user = None
                    then Some NewUserConnections else map_of (registry s) u))
         | Some ad \<Rightarrow>
            (case NewConnectionContext e user connectionCode
                    (RequestHost c) ad (ConfigParams cs) (ConnectParams cs) of
               Inl err \<Rightarrow>
                 fst (Connect e c connectionCode cs s) =
                   Inr \<lparr>ConnectionResult.Status = Some ConnectionStatusError,
                        Action = None, Message = err\<rparr>
                 \<and> (\<forall>u k. context_of s' u k = context_of s u k)
                 \<and> heap s' = heap s \<and> fresh s' = fresh s \<and> trace s' = trace s
                 \<and> (\<forall>u. map_of (registry s') u =
                       (if u = user \<and> map_of (registry s) user = None
                        then Some NewUserConnections else map_of (registry s) u))
             | Inr ctx \<Rightarrow>
                 (\<forall>u k. context_of s' u k =
                    (if u = user \<and> k = connectionCode then Some (fresh s) else context_of s u k))
                 \<and> heap s' = (heap s)(fresh s := snd (ctxConnect e ctx))
                 \<and> (\<exists>evs. trace s' =
                       trace s @ EvStore user connectionCode (fresh s)
                         # EvAdapterConnect (fresh s) # evs)
                 \<and> adapter_connects (trace s') = adapter_connects (trace s) + 1
                 \<and> (wf_registry s \<longrightarrow> (\<forall>u k. context_of s u k \<noteq> Some (fresh s))))"
proof (cases "adapters e (ConnectionSpec.SystemCode cs)")
  case None
  with assms show ?thesis by (simp add: Connect_unknown_system registry_entered)
next
  case (Some ad)
  show ?thesis
  proof (cases "NewConnectionContext e user connectionCode
                  (RequestHost c) ad (ConfigParams cs) (ConnectParams cs)")
    case (Inl err)
    with assms Some show ?thesis by (simp add: Connect_constructor_fails registry_entered)
  next
    case (Inr ctx)
    have nl: "\<not> live_context s (Session.Username (Session c)) connectionCode"
      using assms by simp
    have nc: "NewConnectionContext e (Session.Username (Session c)) connectionCode
                (RequestHost c) ad (ConfigParams cs) (ConnectParams cs) = Inr ctx"
      using assms Inr by simp
    from Connect_stored [OF nl Some nc] obtain evs where
      "snd (Connect e c connectionCode cs s) =
         connected (fresh s) (snd (ctxConnect e ctx)) evs
           (stored (Session.Username (Session c)) connectionCode ctx s)" ..
    moreover have "wf_registry s \<longrightarrow> (\<forall>u k. context_of s u k \<noteq> Some (fresh s))"
      using wf_registry_allocated [of s] by fastforce
    moreover note Connect_stored_once [OF nl Some nc]
    ultimately show ?thesis using Some Inr assms by simp
  qed
qed

theorem Connect_fresh_handshake_witness:
  "\<not> live_context s_three ''carol'' ''main''
   \<and> wf_registry s_three
   \<and> context_of s_three ''carol'' ''main'' = Some 3
   \<and> fst (Connect e_ok c_carol ''main'' cs_unknown s_three) =
       Inl (NotFoundError ''System not found: nowhere'')
   \<and> fst (Connect e_noctx c_carol ''main'' cs_x s_three) =
       Inr \<lparr>ConnectionResult.Status = Some ConnectionStatusError,
            Action = None, Message = ''bad config''\<rparr>
   \<and> context_of (snd (Connect e_noctx c_carol ''main'' cs_x s_three)) ''carol'' ''main'' = Some 3
   \<and> trace (snd (Connect e_noctx c_carol ''main'' cs_x s_three)) = []
   \<and> context_of (snd (Connect e_ok c_carol ''main'' cs_x s_three)) ''carol'' ''main'' = Some 4
   \<and> context_of (snd (Connect e_ok c_carol ''main'' cs_x s_three)) ''alice'' ''main'' = Some 0
   \<and> heap (snd (Connect e_ok c_carol ''main'' cs_x s_three)) 4 =
       ctx_of ''carol'' ''main'' ContextStatusConnected False
   \<and> (\<exists>evs. trace (snd (Connect e_ok c_carol ''main'' cs_x s_three)) =
         EvStore ''carol'' ''main'' 4 # EvAdapterConnect 4 # evs)
   \<and> (\<forall>u k. context_of s_three u k \<noteq> Some 4)
   \<and> \<not> live_context s_empty ''alice'' ''main''
   \<and> map_of (registry s_empty) ''alice'' = None
   \<and> map_of (registry (snd (Connect e_noctx c_alice ''main'' cs_x s_empty))) ''alice''
       = Some NewUserConnections
   \<and> context_of (snd (Connect e_noctx c_alice ''main'' cs_x s_empty)) ''alice'' ''main'' = None"
proof -
  have u: "''carol'' = Session.Username (Session c_carol)"
    "''alice'' = Session.Username (Session c_alice)"
    by (simp_all add: c_carol_def c_alice_def)
  have c3: "context_of s_three ''carol'' ''main'' = Some 3"
    "context_of s_three ''alice'' ''main'' = Some 0"
    "context_of s_empty ''alice'' ''main'' = None"
    "map_of (registry s_empty) ''alice'' = None"
    by (simp_all add: context_of_def s_three_def s_empty_def)
  have h: "\<not> live_context s_three ''carol'' ''main''"
    by (simp add: live_context_def c3 IsConnected_def IsConnecting_def)
       (simp add: s_three_def ctx_of_def)
  have h': "\<not> live_context s_empty ''alice'' ''main''"
    by (simp add: live_context_def c3)
  have w: "wf_registry s_three" by (simp add: wf_registry_def s_three_def)
  have f: "fresh s_three = 4" "trace s_three = []" by (simp_all add: s_three_def)
  have a1: "adapters e_ok ''nowhere'' = None"
    by (simp add: e_ok_def)
  have a2: "adapters e_noctx ''broker-x'' = Some broker_x"
    "adapters e_ok ''broker-x'' = Some broker_x"
    by (simp_all add: e_noctx_def e_ok_def)
  have n2: "NewConnectionContext e_noctx ''carol'' ''main'' (RequestHost c_carol) broker_x
              (ConfigParams cs_x) (ConnectParams cs_x) = Inl ''bad config''"
    "NewConnectionContext e_noctx ''alice'' ''main'' (RequestHost c_alice) broker_x
              (ConfigParams cs_x) (ConnectParams cs_x) = Inl ''bad config''"
    by (simp_all add: e_noctx_def)
  have n3: "NewConnectionContext e_ok ''carol'' ''main'' (RequestHost c_carol) broker_x
              (ConfigParams cs_x) (ConnectParams cs_x)
            = Inr (ctx_of ''carol'' ''main'' ContextStatusDisconnected False)"
    by (simp add: e_ok_def)
  have k: "snd (ctxConnect e_ok (ctx_of ''carol'' ''main'' ContextStatusDisconnected False))
           = ctx_of ''carol'' ''main'' ContextStatusConnected False"
    by (simp add: e_ok_def ctx_of_def)
  have sn: "ConnectionSpec.SystemCode cs_unknown = ''nowhere''"
    "ConnectionSpec.SystemCode cs_x = ''broker-x''"
    by (simp_all add: cs_unknown_def cs_x_def)
  from Connect_fresh_handshake [OF h u(1) refl, of e_ok cs_unknown]
       Connect_fresh_handshake [OF h u(1) refl, of e_noctx cs_x]
       Connect_fresh_handshake [OF h u(1) refl, of e_ok cs_x]
       Connect_fresh_handshake [OF h' u(2) refl, of e_noctx cs_x]
  show ?thesis using h h' w by (simp add: c3 f a1 a2 n2 n3 k sn)
qed

text \<open>
  The claim as stated has every known system code lead to a stored context and a
  handshake. With a constructor that fails, carol's context in Error status is still the
  stored one after the call, and the adapter was not invoked.
\<close>

theorem Connect_fresh_handshake_counterexample:
  "\<not> live_context s_three ''carol'' ''main''
   \<and> adapters e_noctx (ConnectionSpec.SystemCode cs_x) = Some broker_x
   \<and> context_of (snd (Connect e_noctx c_carol ''main'' cs_x s_three)) ''carol'' ''main'' = Some 3
   \<and> trace (snd (Connect e_noctx c_carol ''main'' cs_x s_three)) = []"
  by (simp add: Connect_def e_noctx_def e_ok_def c_carol_def cs_x_def s_three_def Let_def
     live_context_def context_of_def IsConnected_def IsConnecting_def ctx_of_def)

section \<open>Consecutive Connect calls\<close>

text \<open>
  C9 (as amended). Connect holds the write lock for its whole body, so Connect calls for
  the same (user, code) run one after the other. Starting from a registry with no live
  context for the pair: when the first call finds the system code, has its context
  constructed and the adapter's connect primitive leaves that context Connected or
  Connecting, then that call is the only one that invokes the adapter's connect
  primitive, and every later call, whatever its specification and collaborators, leaves
  the state as the first call left it and returns the short-circuit result with the
  status the adapter left.
\<close>

theorem Connect_serialised_once:
  assumes "\<not> live_context s user connectionCode"
    and "Session.Username (Session c) = user"
    and "adapters e (ConnectionSpec.SystemCode cs) = Some ad"
    and "NewConnectionContext e user connectionCode (RequestHost c) ad
           (ConfigParams cs) (ConnectParams cs) = Inr ctx"
    and "IsConnected (snd (ctxConnect e ctx)) \<or> IsConnecting (snd (ctxConnect e ctx))"
    and "\<forall>(e', c', cs') \<in> set calls. Session.Username (Session c') = user"
  shows "snd (Connects ((e, c, cs) # calls) connectionCode s) = snd (Connect e c connectionCode cs s)
         \<and> adapter_connects (trace (snd (Connects ((e, c, cs) # calls) connectionCode s)))
             = adapter_connects (trace s) + 1
         \<and> fst (Connects ((e, c, cs) # calls) connectionCode s) =
             fst (Connect e c connectionCode cs s)
             # replicate (length calls)
                 (Inr (if IsConnected (snd (ctxConnect e ctx))
                       then \<lparr>ConnectionResult.Status = Some ConnectionStatusConnected,
                             Action = None, Message = ''Already connected''\<rparr>
                       else \<lparr>ConnectionResult.Status = Some ConnectionStatusConnecting,
                             Action = None, Message = ''Still connecting''\<rparr>))"
proof -
  let ?s1 = "snd (Connect e c connectionCode cs s)"
  have nl: "\<not> live_context s (Session.Username (Session c)) connectionCode"
    using assms(1,2) by simp
  have nc: "NewConnectionContext e (Session.Username (Session c)) connectionCode (RequestHost c) ad
           (ConfigParams cs) (ConnectParams cs) = Inr ctx"
    using assms(2,4) by simp
  from Connect_stored [OF nl assms(3) nc] obtain evs where
    s1: "?s1 = connected (fresh s) (snd (ctxConnect e ctx)) evs
                 (stored (Session.Username (Session c)) connectionCode ctx s)" ..
  have k: "context_of ?s1 user connectionCode = Some (fresh s)"
    using assms(2) by (simp add: s1)
  have h: "heap ?s1 (fresh s) = snd (ctxConnect e ctx)" by (simp add: s1)
  have l: "IsConnected (heap ?s1 (fresh s)) \<or> IsConnecting (heap ?s1 (fresh s))"
    using assms(5) by (simp add: h)
  note rest = Connects_live [OF k l assms(6)]
  have once: "adapter_connects (trace ?s1) = adapter_connects (trace s) + 1"
    by (rule Connect_stored_once [OF nl assms(3) nc])
  show ?thesis using rest once by (simp add: split_def Let_def h)
qed

theorem Connect_serialised_once_witness:
  "\<not> live_context s_empty ''alice'' ''main''
   \<and> adapters e_ok ''broker-x'' = Some broker_x
   \<and> IsConnected (snd (ctxConnect e_ok (ctx_of ''alice'' ''main'' ContextStatusDisconnected False)))
   \<and> fst (Connects [(e_ok, c_alice, cs_x), (e_ok, c_alice, cs_x), (e_fail, c_alice, cs_unknown)]
            ''main'' s_empty) =
       [fst (Connect e_ok c_alice ''main'' cs_x s_empty),
        Inr \<lparr>ConnectionResult.Status = Some ConnectionStatusConnected,
             Action = None, Message = ''Already connected''\<rparr>,
        Inr \<lparr>ConnectionResult.Status = Some ConnectionStatusConnected,
             Action = None, Message = ''Already connected''\<rparr>]
   \<and> adapter_connects
        (trace (snd (Connects [(e_ok, c_alice, cs_x), (e_ok, c_alice, cs_x),
                               (e_fail, c_alice, cs_unknown)] ''main'' s_empty))) = 1"
proof -
  have h1: "\<not> live_context s_empty ''alice'' ''main''"
    by (simp add: live_context_def context_of_def s_empty_def)
  have h2: "Session.Username (Session c_alice) = ''alice''" by (simp add: c_alice_def)
  have h3: "adapters e_ok (ConnectionSpec.SystemCode cs_x) = Some broker_x"
    by (simp add: e_ok_def cs_x_def)
  have h4: "NewConnectionContext e_ok ''alice'' ''main'' (RequestHost c_alice) broker_x
              (ConfigParams cs_x) (ConnectParams cs_x)
            = Inr (ctx_of ''alice'' ''main'' ContextStatusDisconnected False)"
    by (simp add: e_ok_def)
  have h5: "IsConnected (snd (ctxConnect e_ok (ctx_of ''alice'' ''main'' ContextStatusDisconnected False)))"
    by (simp add: e_ok_def ctx_of_def IsConnected_def)
  then have h5': "IsConnected (snd (ctxConnect e_ok (ctx_of ''alice'' ''main'' ContextStatusDisconnected False)))
     \<or> IsConnecting (snd (ctxConnect e_ok (ctx_of ''alice'' ''main'' ContextStatusDisconnected False)))"
    by simp
  have h6: "\<forall>(e', c', cs') \<in> set [(e_ok, c_alice, cs_x), (e_fail, c_alice, cs_unknown)].
              Session.Username (Session c') = ''alice''"
    by (simp add: c_alice_def)
  have a: "adapters e_ok ''broker-x'' = Some broker_x" by (simp add: e_ok_def)
  have z: "adapter_connects (trace s_empty) = 0"
    by (simp add: s_empty_def adapter_connects_def)
  note th = Connect_serialised_once [OF h1 h2 h3 h4 h5' h6]
  have n: "adapter_connects
        (trace (snd (Connects [(e_ok, c_alice, cs_x), (e_ok, c_alice, cs_x),
                               (e_fail, c_alice, cs_unknown)] ''main'' s_empty))) = 1"
    using th [THEN conjunct2, THEN conjunct1] by (simp only: z)
  have r: "fst (Connects [(e_ok, c_alice, cs_x), (e_ok, c_alice, cs_x), (e_fail, c_alice, cs_unknown)]
            ''main'' s_empty) =
       [fst (Connect e_ok c_alice ''main'' cs_x s_empty),
        Inr \<lparr>ConnectionResult.Status = Some ConnectionStatusConnected,
             Action = None, Message = ''Already connected''\<rparr>,
        Inr \<lparr>ConnectionResult.Status = Some ConnectionStatusConnected,
             Action = None, Message = ''Already connected''\<rparr>]"
    using th [THEN conjunct2, THEN conjunct2] h5 by (simp del: Connects.simps)
  show ?thesis by (intro conjI h1 a h5 n r)
qed

text \<open>
  The claim as stated has exactly one adapter invocation for any such calls. With an
  adapter that rejects the connect, the context is left in Error status and the second
  call invokes the adapter again.
\<close>

theorem Connect_serialised_once_counterexample:
  "context_of s_empty ''alice'' ''main'' = None
   \<and> fst (Connects [(e_fail, c_alice, cs_x), (e_fail, c_alice, cs_x)] ''main'' s_empty) =
       [Inr \<lparr>ConnectionResult.Status = Some ConnectionStatusError,
             Action = Some ConnectionActionNone, Message = ''login rejected''\<rparr>,
        Inr \<lparr>ConnectionResult.Status = Some ConnectionStatusError,
             Action = Some ConnectionActionNone, Message = ''login rejected''\<rparr>]
   \<and> trace (snd (Connects [(e_fail, c_alice, cs_x), (e_fail, c_alice, cs_x)] ''main'' s_empty)) =
       [EvStore ''alice'' ''main'' 0, EvAdapterConnect 0,
        EvStore ''alice'' ''main'' 1, EvAdapterConnect 1]
   \<and> adapter_connects
        (trace (snd (Connects [(e_fail, c_alice, cs_x), (e_fail, c_alice, cs_x)] ''main'' s_empty)))
       = 2"
  by (simp add: Connect_def e_fail_def e_ok_def c_alice_def cs_x_def s_empty_def Let_def
     NewUserConnections_def context_of_def IsConnected_def IsConnecting_def ctx_of_def
     adapter_connects_def)

section \<open>Disconnect\<close>

text \<open>
  C2. Disconnect for a caller with no registry entry, or with no context under the
  connection code, fails with a Not-Found error and changes nothing. For a stored context
  that is not Disconnected, the change message is published first. If the publication
  fails, the call returns a Server-Error carrying the publish error and the registry is
  as before, the entry still there. Otherwise the entry, and only that entry, is removed
  from the caller's map, the adapter's disconnect primitive is invoked on the context
  after the removal, and the call returns success whatever the adapter returned.
\<close>

theorem Disconnect_protocol:
  assumes "user = Session.Username (Session c)"
    and "s' = snd (Disconnect e c connectionCode s)"
  shows "case context_of s user connectionCode of
           None \<Rightarrow>
             Disconnect e c connectionCode s =
               (Some (NotFoundError
                  (if map_of (registry s) user = None
                   then ''Connection not found for user: '' @ user
                   else ''Connection not found: '' @ connectionCode)), s)
         | Some a \<Rightarrow>
             \<not> IsDisconnected (heap s a) \<longrightarrow>
             (case SendMessage e (changeMessage (heap s a)) of
                Some err \<Rightarrow>
                  fst (Disconnect e c connectionCode s) = Some (ServerError err)
                  \<and> registry s' = registry s
                  \<and> context_of s' user connectionCode = Some a
                  \<and> trace s' = trace s @ [EvPublish (changeMessage (heap s a)), EvLogError err]
              | None \<Rightarrow>
                  fst (Disconnect e c connectionCode s) = None
                  \<and> context_of s' u k =
                      (if u = user \<and> k = connectionCode then None else context_of s u k)
                  \<and> heap s' a = snd (ctxDisconnect e (heap s a))
                  \<and> trace s' = trace s @ [EvPublish (changeMessage (heap s a)),
                                          EvDelete user connectionCode,
                                          EvAdapterDisconnect a])"
proof (cases "context_of s user connectionCode")
  case None
  then show ?thesis using assms by (simp add: Disconnect_absent)
next
  case (Some a)
  then obtain uc where uc: "map_of (registry s) user = Some uc"
    "map_of (contexts uc) connectionCode = Some a"
    by (auto simp: context_of_def split: option.splits)
  show ?thesis
  proof (cases "IsDisconnected (heap s a)")
    case True
    then show ?thesis using Some by simp
  next
    case False
    show ?thesis
    proof (cases "SendMessage e (changeMessage (heap s a))")
      case None
      from Disconnect_removes [of s c uc connectionCode a e] uc False None assms
      have "Disconnect e c connectionCode s =
        (None,
         s\<lparr>registry := AList.update user
                       (uc\<lparr>contexts := AList.delete connectionCode (contexts uc)\<rparr>) (registry s),
           heap := (heap s)(a := snd (ctxDisconnect e (heap s a))),
           trace := trace s @ [EvPublish (changeMessage (heap s a)),
                            EvDelete user connectionCode,
                            EvAdapterDisconnect a]\<rparr>)"
        by simp
      then show ?thesis using Some None False assms uc
        by (simp add: context_of_def update_conv' delete_conv')
    next
      case (Some err)
      from Disconnect_publish_fails [of s c connectionCode a e err] \<open>context_of s user connectionCode = Some a\<close> False Some assms
      show ?thesis by simp
    qed
  qed
qed

theorem Disconnect_protocol_witness:
  "context_of s_empty ''alice'' ''main'' = None
   \<and> Disconnect e_ok c_alice ''main'' s_empty =
       (Some (NotFoundError ''Connection not found for user: alice''), s_empty)
   \<and> context_of s_three ''alice'' ''main'' = Some 0
   \<and> \<not> IsDisconnected (heap s_three 0)
   \<and> SendMessage e_pubfail (changeMessage (heap s_three 0)) = Some ''bus down''
   \<and> fst (Disconnect e_pubfail c_alice ''main'' s_three) = Some (ServerError ''bus down'')
   \<and> context_of (snd (Disconnect e_pubfail c_alice ''main'' s_three)) ''alice'' ''main'' = Some 0
   \<and> SendMessage e_ok (changeMessage (heap s_three 0)) = None
   \<and> fst (ctxDisconnect e_ok (heap s_three 0)) = Some ''upstream gone''
   \<and> fst (Disconnect e_ok c_alice ''main'' s_three) = None
   \<and> context_of (snd (Disconnect e_ok c_alice ''main'' s_three)) ''alice'' ''main'' = None
   \<and> context_of (snd (Disconnect e_ok c_alice ''main'' s_three)) ''alice'' ''aux'' = Some 1
   \<and> trace (snd (Disconnect e_ok c_alice ''main'' s_three)) =
       [EvPublish (changeMessage (heap s_three 0)), EvDelete ''alice'' ''main'',
        EvAdapterDisconnect 0]"
proof -
  have u: "''alice'' = Session.Username (Session c_alice)" by (simp add: c_alice_def)
  have n: "context_of s_empty ''alice'' ''main'' = None"
    "map_of (registry s_empty) ''alice'' = None"
    by (simp_all add: context_of_def s_empty_def)
  have a0: "context_of s_three ''alice'' ''main'' = Some 0"
    "context_of s_three ''alice'' ''aux'' = Some 1"
    by (simp_all add: context_of_def s_three_def)
  have d: "\<not> IsDisconnected (heap s_three 0)"
    by (simp add: IsDisconnected_def s_three_def ctx_of_def)
  have p: "SendMessage e_pubfail (changeMessage (heap s_three 0)) = Some ''bus down''"
    "SendMessage e_ok (changeMessage (heap s_three 0)) = None"
    "fst (ctxDisconnect e_ok (heap s_three 0)) = Some ''upstream gone''"
    by (simp_all add: e_pubfail_def e_ok_def)
  have t: "trace s_three = []" by (simp add: s_three_def)
  from Disconnect_protocol [OF u refl, of e_ok "''main''" s_empty]
       Disconnect_protocol [OF u refl, of e_pubfail "''main''" s_three]
       Disconnect_protocol [OF u refl, of e_ok "''main''" s_three "''alice''" "''main''"]
       Disconnect_protocol [OF u refl, of e_ok "''main''" s_three "''alice''" "''aux''"]
  show ?thesis by (simp add: n a0 d p t)
qed

text \<open>
  C3 (as amended). Disconnect on a (user, code) pair with no entry in the registry fails
  with a Not-Found error; on an entry whose status is Disconnected it returns success.
  Either way the state is the one it started from: the adapter's disconnect primitive is
  not invoked and nothing is published.
\<close>

theorem Disconnect_nothing_to_do:
  "(context_of s (Session.Username (Session c)) connectionCode = None \<longrightarrow>
      (\<exists>msg. Disconnect e c connectionCode s = (Some (NotFoundError msg), s)))
   \<and> (context_of s (Session.Username (Session c)) connectionCode = Some a
        \<and> IsDisconnected (heap s a) \<longrightarrow>
      Disconnect e c connectionCode s = (None, s))"
  by (simp add: Disconnect_absent Disconnect_disconnected)

theorem Disconnect_nothing_to_do_witness:
  "context_of s_empty ''alice'' ''main'' = None
   \<and> (\<exists>msg. Disconnect e_ok c_alice ''main'' s_empty = (Some (NotFoundError msg), s_empty))
   \<and> context_of s_three ''bob'' ''main'' = Some 2
   \<and> IsDisconnected (heap s_three 2)
   \<and> Disconnect e_ok c_bob ''main'' s_three = (None, s_three)"
proof -
  have u: "Session.Username (Session c_alice) = ''alice''"
    "Session.Username (Session c_bob) = ''bob''"
    by (simp_all add: c_alice_def c_bob_def)
  have n: "context_of s_empty ''alice'' ''main'' = None"
    by (simp add: context_of_def s_empty_def)
  have b: "context_of s_three ''bob'' ''main'' = Some 2"
    by (simp add: context_of_def s_three_def)
  have d: "IsDisconnected (heap s_three 2)"
    by (simp add: IsDisconnected_def s_three_def ctx_of_def)
  from Disconnect_nothing_to_do [of s_empty c_alice "''main''" e_ok]
       Disconnect_nothing_to_do [of s_three c_bob "''main''" e_ok 2]
  show ?thesis by (simp add: u n b d)
qed

text \<open>
  The claim as stated has the call succeed when the pair has no entry. On the empty
  registry it returns a Not-Found error.
\<close>

theorem Disconnect_nothing_to_do_counterexample:
  "context_of s_empty ''alice'' ''main'' = None
   \<and> fst (Disconnect e_ok c_alice ''main'' s_empty) =
       Some (NotFoundError ''Connection not found for user: alice'')"
  by (simp add: context_of_def Disconnect_def s_empty_def c_alice_def)

section \<open>The read-only snapshots\<close>

lemma set_GetConnectionsToRefresh:
  "set (GetConnectionsToRefresh s) =
     {a. \<exists>user uc code. (user, uc) \<in> set (registry s) \<and> (code, a) \<in> set (contexts uc)
           \<and> NeedsRefresh (heap s a)}"
  by (force simp: GetConnectionsToRefresh_def)

text \<open>
  C7. In a well-formed registry, the addresses GetConnectionsToRefresh returns are
  exactly those of the contexts stored under some user and some connection code for
  which NeedsRefresh reports true.
\<close>

theorem GetConnectionsToRefresh_exact:
  assumes "wf_registry s"
  shows "set (GetConnectionsToRefresh s) =
           {a. \<exists>user code. context_of s user code = Some a \<and> NeedsRefresh (heap s a)}"
  using assms by (auto simp: set_GetConnectionsToRefresh wf_registry_stored)

theorem GetConnectionsToRefresh_exact_witness:
  "wf_registry s_three
   \<and> set (GetConnectionsToRefresh s_three) =
       {a. \<exists>user code. context_of s_three user code = Some a \<and> NeedsRefresh (heap s_three a)}
   \<and> GetConnectionsToRefresh s_three = [1, 3]
   \<and> context_of s_three ''alice'' ''aux'' = Some 1
   \<and> context_of s_three ''carol'' ''main'' = Some 3"
proof -
  have w: "wf_registry s_three" by (simp add: wf_registry_def s_three_def)
  have g: "GetConnectionsToRefresh s_three = [1, 3]"
    by (simp add: GetConnectionsToRefresh_def s_three_def NeedsRefresh_def ctx_of_def)
  have c: "context_of s_three ''alice'' ''aux'' = Some 1"
    "context_of s_three ''carol'' ''main'' = Some 3"
    by (simp_all add: context_of_def s_three_def)
  from GetConnectionsToRefresh_exact [OF w] w g c show ?thesis by simp
qed

lemma map_by_key:
  "distinct (map fst al) \<Longrightarrow>
   map (\<lambda>(k, v). f v) al = map (\<lambda>k. f (the (map_of al k))) (map fst al)"
  by (induction al) (auto simp: rev_image_eqI)

text \<open>
  C8. GetConnections looks the caller's own username up. With no registry entry for it
  the list is empty. Otherwise the list has one entry for each connection code of the
  caller's map, in some order, and the entry holds the username, the connection code,
  the system code and the system name of the context stored under that code. The
  entries are values built from these four strings: they hold no address of the store,
  so the list is detached from the registry. The filter, the offset and the limit have
  no effect.
\<close>

theorem GetConnections_snapshot:
  assumes "wf_registry s"
  shows "(case map_of (registry s) (Session.Username (Session c)) of
            None \<Rightarrow> GetConnections c filter_arg offset limit s = []
          | Some uc \<Rightarrow>
              (\<exists>codes. distinct codes \<and> set codes = dom (map_of (contexts uc))
                 \<and> GetConnections c filter_arg offset limit s =
                     map (\<lambda>code.
                            \<lparr>ConnectionInfo.Username =
                               ConnectionContext.Username (heap s (the (map_of (contexts uc) code))),
                             ConnectionInfo.ConnectionCode =
                               ConnectionContext.ConnectionCode
                                 (heap s (the (map_of (contexts uc) code))),
                             ConnectionInfo.SystemCode =
                               Code (GetAdapterInfo (heap s (the (map_of (contexts uc) code)))),
                             ConnectionInfo.SystemName =
                               Name (GetAdapterInfo (heap s (the (map_of (contexts uc) code))))\<rparr>)
                         codes))
         \<and> GetConnections c filter_arg' offset' limit' s
             = GetConnections c filter_arg offset limit s"
proof (cases "map_of (registry s) (Session.Username (Session c))")
  case None
  then show ?thesis by (simp add: GetConnections_def)
next
  case (Some uc)
  then have "(Session.Username (Session c), uc) \<in> set (registry s)" by (rule map_of_SomeD)
  with assms have d: "distinct (map fst (contexts uc))" by (simp add: wf_registry_iff)
  have g: "GetConnections c filter_arg offset limit s =
          map (\<lambda>code. connectionInfo (heap s (the (map_of (contexts uc) code))))
              (map fst (contexts uc))"
    using Some map_by_key [OF d, of "\<lambda>a. connectionInfo (heap s a)"]
    by (simp add: GetConnections_def)
  have k: "set (map fst (contexts uc)) = dom (map_of (contexts uc))"
    by (simp add: dom_map_of_conv_image_fst)
  have "\<exists>codes. distinct codes \<and> set codes = dom (map_of (contexts uc))
          \<and> GetConnections c filter_arg offset limit s =
              map (\<lambda>code. connectionInfo (heap s (the (map_of (contexts uc) code)))) codes"
    using d g k by blast
  moreover have "GetConnections c filter_arg' offset' limit' s
                   = GetConnections c filter_arg offset limit s"
    by (simp add: GetConnections_def)
  ultimately show ?thesis using Some by (simp add: connectionInfo_def)
qed

theorem GetConnections_snapshot_witness:
  "wf_registry s_three
   \<and> GetConnections c_alice [] 0 10 s_three =
       [\<lparr>ConnectionInfo.Username = ''alice'', ConnectionCode = ''main'',
         SystemCode = ''broker-x'', SystemName = ''Broker X''\<rparr>,
        \<lparr>ConnectionInfo.Username = ''alice'', ConnectionCode = ''aux'',
         SystemCode = ''broker-x'', SystemName = ''Broker X''\<rparr>]
   \<and> GetConnections c_alice [(''status'', ''connected'')] 1 1 s_three
       = GetConnections c_alice [] 0 10 s_three
   \<and> wf_registry s_empty
   \<and> GetConnections c_alice [] 0 10 s_empty = []"
proof -
  have w: "wf_registry s_three" "wf_registry s_empty"
    by (simp_all add: wf_registry_def s_three_def s_empty_def)
  have g: "GetConnections c_alice [] 0 10 s_three =
       [\<lparr>ConnectionInfo.Username = ''alice'', ConnectionCode = ''main'',
         SystemCode = ''broker-x'', SystemName = ''Broker X''\<rparr>,
        \<lparr>ConnectionInfo.Username = ''alice'', ConnectionCode = ''aux'',
         SystemCode = ''broker-x'', SystemName = ''Broker X''\<rparr>]"
    by (simp add: GetConnections_def s_three_def c_alice_def connectionInfo_def ctx_of_def
          GetAdapterInfo_def broker_x_def)
  have n: "map_of (registry s_empty) (Session.Username (Session c_alice)) = None"
    by (simp add: s_empty_def)
  from GetConnections_snapshot [OF w(1), of c_alice "[]" 0 10 "[(''status'', ''connected'')]" 1 1]
       GetConnections_snapshot [OF w(2), of c_alice "[]" 0 10]
  show ?thesis using w g by (simp add: n)
qed

section \<open>Which identity is looked up\<close>

lemma getConnectionContext_eq:
  "getConnectionContext c connectionCode s =
     (case context_of s (OnBehalfOf (Session c)) connectionCode of
        Some a \<Rightarrow> Inr a
      | None \<Rightarrow>
          Inl (NotFoundError
                (if map_of (registry s) (OnBehalfOf (Session c)) = None
                 then ''Connection not found for user: '' @ OnBehalfOf (Session c)
                 else ''Connection not found: '' @ connectionCode)))"
  by (auto simp: getConnectionContext_def context_of_def Let_def split: option.splits)

lemma getConnectionContext_Username:
  "getConnectionContext (c\<lparr>Session := (Session c)\<lparr>Session.Username := u\<rparr>\<rparr>) connectionCode s
     = getConnectionContext c connectionCode s"
  by (simp add: getConnectionContext_def)

lemma TestAdapter_eq:
  "TestAdapter e c connectionCode tar s =
     (case context_of s (Session.Username (Session c)) connectionCode of
        Some a \<Rightarrow> ctxTestAdapter e (heap s a) (Service tar) (Query tar)
      | None \<Rightarrow>
          Inl (NotFoundError
                (if map_of (registry s) (Session.Username (Session c)) = None
                 then ''Connection not found for user: '' @ Session.Username (Session c)
                 else ''Connection not found: '' @ connectionCode)))"
  by (auto simp: TestAdapter_def context_of_def Let_def split: option.splits)

text \<open>
  C6. The five queries resolve the context under the session's on-behalf-of identity:
  with no context stored for that identity and the connection code they fail with a
  Not-Found error, with one stored they return what the adapter returns for that
  context, and the acting username has no part in the result. TestAdapter, Connect and
  Disconnect work under the acting username. TestAdapter and Disconnect fail Not-Found
  when that username has no context under the code; with one stored, TestAdapter
  returns what the adapter returns for it, Disconnect is a no-op when it is
  Disconnected and otherwise publishes its change, returning a Server-Error and keeping
  it when the publication fails and removing it from that user's map when it succeeds,
  and Connect short-circuits when it is Connected or Connecting. A Connect that gets
  past the check stores the new context under the acting username, whose registry
  entry exists after every Connect. The on-behalf-of identity has no part in any of the
  three.
\<close>

theorem lookup_identity:
  "(context_of s (OnBehalfOf (Session c)) connectionCode = None \<longrightarrow>
      is_NotFound (GetRootSymbols e c connectionCode flt s)
      \<and> is_NotFound (GetRootSymbol e c connectionCode root s)
      \<and> is_NotFound (GetInstruments e c connectionCode root s)
      \<and> is_NotFound (GetPriceBars e c connectionCode symbol date s)
      \<and> is_NotFound (GetAccounts e c connectionCode s))
   \<and> (context_of s (OnBehalfOf (Session c)) connectionCode = Some a \<longrightarrow>
      GetRootSymbols e c connectionCode flt s = ctxGetRootSymbols e (heap s a) flt
      \<and> GetRootSymbol e c connectionCode root s = ctxGetRootSymbol e (heap s a) root
      \<and> GetInstruments e c connectionCode root s = ctxGetInstruments e (heap s a) root
      \<and> GetPriceBars e c connectionCode symbol date s = ctxGetPriceBars e (heap s a) symbol date
      \<and> GetAccounts e c connectionCode s = ctxGetAccounts e (heap s a))
   \<and> (GetRootSymbols e (c\<lparr>Session := (Session c)\<lparr>Session.Username := u\<rparr>\<rparr>) connectionCode flt s
        = GetRootSymbols e c connectionCode flt s
      \<and> GetRootSymbol e (c\<lparr>Session := (Session c)\<lparr>Session.Username := u\<rparr>\<rparr>) connectionCode root s
        = GetRootSymbol e c connectionCode root s
      \<and> GetInstruments e (c\<lparr>Session := (Session c)\<lparr>Session.Username := u\<rparr>\<rparr>) connectionCode root s
        = GetInstruments e c connectionCode root s
      \<and> GetPriceBars e (c\<lparr>Session := (Session c)\<lparr>Session.Username := u\<rparr>\<rparr>) connectionCode
          symbol date s
        = GetPriceBars e c connectionCode symbol date s
      \<and> GetAccounts e (c\<lparr>Session := (Session c)\<lparr>Session.Username := u\<rparr>\<rparr>) connectionCode s
        = GetAccounts e c connectionCode s)
   \<and> (context_of s (Session.Username (Session c)) connectionCode = None \<longrightarrow>
      is_NotFound (TestAdapter e c connectionCode tar s)
      \<and> (\<exists>msg. fst (Disconnect e c connectionCode s) = Some (NotFoundError msg)))
   \<and> (context_of s (Session.Username (Session c)) connectionCode = Some a \<longrightarrow>
      TestAdapter e c connectionCode tar s = ctxTestAdapter e (heap s a) (Service tar) (Query tar))
   \<and> (context_of s (Session.Username (Session c)) connectionCode = Some b \<longrightarrow>
      (if IsDisconnected (heap s b) then Disconnect e c connectionCode s = (None, s)
       else (case SendMessage e (changeMessage (heap s b)) of
               Some err \<Rightarrow>
                 fst (Disconnect e c connectionCode s) = Some (ServerError err)
                 \<and> context_of (snd (Disconnect e c connectionCode s))
                      (Session.Username (Session c)) connectionCode = Some b
             | None \<Rightarrow>
                 fst (Disconnect e c connectionCode s) = None
                 \<and> context_of (snd (Disconnect e c connectionCode s))
                      (Session.Username (Session c)) connectionCode = None
                 \<and> heap (snd (Disconnect e c connectionCode s)) b
                      = snd (ctxDisconnect e (heap s b)))))
   \<and> (context_of s (Session.Username (Session c)) connectionCode = Some b
        \<and> (IsConnected (heap s b) \<or> IsConnecting (heap s b)) \<longrightarrow>
      Connect e c connectionCode cs s =
        (Inr (if IsConnected (heap s b)
              then \<lparr>ConnectionResult.Status = Some ConnectionStatusConnected,
                    Action = None, Message = ''Already connected''\<rparr>
              else \<lparr>ConnectionResult.Status = Some ConnectionStatusConnecting,
                    Action = None, Message = ''Still connecting''\<rparr>), s))
   \<and> (\<not> live_context s (Session.Username (Session c)) connectionCode
        \<and> adapters e (ConnectionSpec.SystemCode cs) = Some ad
        \<and> NewConnectionContext e (Session.Username (Session c)) connectionCode (RequestHost c) ad
              (ConfigParams cs) (ConnectParams cs) = Inr ctx \<longrightarrow>
      context_of (snd (Connect e c connectionCode cs s))
        (Session.Username (Session c)) connectionCode = Some (fresh s)
      \<and> heap (snd (Connect e c connectionCode cs s)) (fresh s) = snd (ctxConnect e ctx))
   \<and> map_of (registry (snd (Connect e c connectionCode cs s))) (Session.Username (Session c))
        \<noteq> None
   \<and> (TestAdapter e (c\<lparr>Session := (Session c)\<lparr>OnBehalfOf := u\<rparr>\<rparr>) connectionCode tar s
        = TestAdapter e c connectionCode tar s
      \<and> Connect e (c\<lparr>Session := (Session c)\<lparr>OnBehalfOf := u\<rparr>\<rparr>) connectionCode cs s
        = Connect e c connectionCode cs s
      \<and> Disconnect e (c\<lparr>Session := (Session c)\<lparr>OnBehalfOf := u\<rparr>\<rparr>) connectionCode s
        = Disconnect e c connectionCode s)"
proof -
  have absent: "context_of s (OnBehalfOf (Session c)) connectionCode = None \<longrightarrow>
      is_NotFound (GetRootSymbols e c connectionCode flt s)
      \<and> is_NotFound (GetRootSymbol e c connectionCode root s)
      \<and> is_NotFound (GetInstruments e c connectionCode root s)
      \<and> is_NotFound (GetPriceBars e c connectionCode symbol date s)
      \<and> is_NotFound (GetAccounts e c connectionCode s)"
    by (simp add: GetRootSymbols_def GetRootSymbol_def GetInstruments_def GetPriceBars_def
          GetAccounts_def getConnectionContext_eq is_NotFound_def)
  have present: "context_of s (OnBehalfOf (Session c)) connectionCode = Some a \<longrightarrow>
      GetRootSymbols e c connectionCode flt s = ctxGetRootSymbols e (heap s a) flt
      \<and> GetRootSymbol e c connectionCode root s = ctxGetRootSymbol e (heap s a) root
      \<and> GetInstruments e c connectionCode root s = ctxGetInstruments e (heap s a) root
      \<and> GetPriceBars e c connectionCode symbol date s = ctxGetPriceBars e (heap s a) symbol date
      \<and> GetAccounts e c connectionCode s = ctxGetAccounts e (heap s a)"
    by (simp add: GetRootSymbols_def GetRootSymbol_def GetInstruments_def GetPriceBars_def
          GetAccounts_def getConnectionContext_eq)
  have acting: "GetRootSymbols e (c\<lparr>Session := (Session c)\<lparr>Session.Username := u\<rparr>\<rparr>) connectionCode flt s
        = GetRootSymbols e c connectionCode flt s
      \<and> GetRootSymbol e (c\<lparr>Session := (Session c)\<lparr>Session.Username := u\<rparr>\<rparr>) connectionCode root s
        = GetRootSymbol e c connectionCode root s
      \<and> GetInstruments e (c\<lparr>Session := (Session c)\<lparr>Session.Username := u\<rparr>\<rparr>) connectionCode root s
        = GetInstruments e c connectionCode root s
      \<and> GetPriceBars e (c\<lparr>Session := (Session c)\<lparr>Session.Username := u\<rparr>\<rparr>) connectionCode
          symbol date s
        = GetPriceBars e c connectionCode symbol date s
      \<and> GetAccounts e (c\<lparr>Session := (Session c)\<lparr>Session.Username := u\<rparr>\<rparr>) connectionCode s
        = GetAccounts e c connectionCode s"
    by (simp add: GetRootSymbols_def GetRootSymbol_def GetInstruments_def GetPriceBars_def
          GetAccounts_def getConnectionContext_Username)
  have own_absent: "context_of s (Session.Username (Session c)) connectionCode = None \<longrightarrow>
      is_NotFound (TestAdapter e c connectionCode tar s)
      \<and> (\<exists>msg. fst (Disconnect e c connectionCode s) = Some (NotFoundError msg))"
    by (simp add: TestAdapter_eq is_NotFound_def Disconnect_absent)
  have own_present: "context_of s (Session.Username (Session c)) connectionCode = Some a \<longrightarrow>
      TestAdapter e c connectionCode tar s = ctxTestAdapter e (heap s a) (Service tar) (Query tar)"
    by (simp add: TestAdapter_eq)
  have own_disconnect: "context_of s (Session.Username (Session c)) connectionCode = Some b \<longrightarrow>
      (if IsDisconnected (heap s b) then Disconnect e c connectionCode s = (None, s)
       else (case SendMessage e (changeMessage (heap s b)) of
               Some err \<Rightarrow>
                 fst (Disconnect e c connectionCode s) = Some (ServerError err)
                 \<and> context_of (snd (Disconnect e c connectionCode s))
                      (Session.Username (Session c)) connectionCode = Some b
             | None \<Rightarrow>
                 fst (Disconnect e c connectionCode s) = None
                 \<and> context_of (snd (Disconnect e c connectionCode s))
                      (Session.Username (Session c)) connectionCode = None
                 \<and> heap (snd (Disconnect e c connectionCode s)) b
                      = snd (ctxDisconnect e (heap s b))))"
    using Disconnect_present [of s c connectionCode b e] by blast
  have own_live: "context_of s (Session.Username (Session c)) connectionCode = Some b
        \<and> (IsConnected (heap s b) \<or> IsConnecting (heap s b)) \<longrightarrow>
      Connect e c connectionCode cs s =
        (Inr (if IsConnected (heap s b)
              then \<lparr>ConnectionResult.Status = Some ConnectionStatusConnected,
                    Action = None, Message = ''Already connected''\<rparr>
              else \<lparr>ConnectionResult.Status = Some ConnectionStatusConnecting,
                    Action = None, Message = ''Still connecting''\<rparr>), s)"
    using Connect_short [of s c connectionCode b e cs] by blast
  have own_store: "\<not> live_context s (Session.Username (Session c)) connectionCode
        \<and> adapters e (ConnectionSpec.SystemCode cs) = Some ad
        \<and> NewConnectionContext e (Session.Username (Session c)) connectionCode (RequestHost c) ad
              (ConfigParams cs) (ConnectParams cs) = Inr ctx \<longrightarrow>
      context_of (snd (Connect e c connectionCode cs s))
        (Session.Username (Session c)) connectionCode = Some (fresh s)
      \<and> heap (snd (Connect e c connectionCode cs s)) (fresh s) = snd (ctxConnect e ctx)"
    using Connect_stores_for_caller [of s c connectionCode e cs ad ctx] by blast
  have behalf: "TestAdapter e (c\<lparr>Session := (Session c)\<lparr>OnBehalfOf := u\<rparr>\<rparr>) connectionCode tar s
        = TestAdapter e c connectionCode tar s
      \<and> Connect e (c\<lparr>Session := (Session c)\<lparr>OnBehalfOf := u\<rparr>\<rparr>) connectionCode cs s
        = Connect e c connectionCode cs s
      \<and> Disconnect e (c\<lparr>Session := (Session c)\<lparr>OnBehalfOf := u\<rparr>\<rparr>) connectionCode s
        = Disconnect e c connectionCode s"
    by (intro conjI; (rule Connect_same_caller Disconnect_same_caller)?)
       (simp_all add: TestAdapter_def)
  note enters = Connect_enters_user [of e c connectionCode cs s]
  show ?thesis
    by (rule conjI [OF absent conjI [OF present conjI [OF acting conjI [OF own_absent
          conjI [OF own_present conjI [OF own_disconnect conjI [OF own_live
          conjI [OF own_store conjI [OF enters behalf]]]]]]]]])
qed

theorem lookup_identity_witness:
  "context_of s_three ''bob'' ''aux'' = None
   \<and> context_of s_three ''alice'' ''aux'' = Some 1
   \<and> is_NotFound (GetRootSymbols e_ok c_alice ''aux'' ''ES'' s_three)
   \<and> is_NotFound (GetAccounts e_ok c_alice ''aux'' s_three)
   \<and> TestAdapter e_ok c_alice ''aux'' \<lparr>Service = ''svc'', Query = ''q''\<rparr> s_three =
       ctxTestAdapter e_ok (heap s_three 1) ''svc'' ''q''
   \<and> context_of s_three ''bob'' ''main'' = Some 2
   \<and> GetAccounts e_ok c_alice ''main'' s_three = ctxGetAccounts e_ok (heap s_three 2)
   \<and> GetInstruments e_ok c_alice ''main'' ''ES'' s_three
       = ctxGetInstruments e_ok (heap s_three 2) ''ES''
   \<and> is_NotFound (TestAdapter e_ok c_bob ''aux'' \<lparr>Service = ''svc'', Query = ''q''\<rparr> s_three)
   \<and> (\<exists>msg. fst (Disconnect e_ok c_bob ''aux'' s_three) = Some (NotFoundError msg))
   \<and> IsDisconnected (heap s_three 2)
   \<and> Disconnect e_ok c_bob ''main'' s_three = (None, s_three)
   \<and> context_of s_three ''carol'' ''main'' = Some 3
   \<and> context_of s_three ''alice'' ''main'' = Some 0
   \<and> fst (Disconnect e_ok c_carol ''main'' s_three) = None
   \<and> context_of (snd (Disconnect e_ok c_carol ''main'' s_three)) ''carol'' ''main'' = None
   \<and> IsConnected (heap s_three 0)
   \<and> Connect e_ok c_alice ''main'' cs_x s_three =
       (Inr \<lparr>ConnectionResult.Status = Some ConnectionStatusConnected,
             Action = None, Message = ''Already connected''\<rparr>, s_three)
   \<and> context_of (snd (Connect e_ok c_carol ''main'' cs_x s_three)) ''carol'' ''main'' = Some 4"
proof -
  have u: "OnBehalfOf (Session c_alice) = ''bob''" "Session.Username (Session c_alice) = ''alice''"
    "Session.Username (Session c_bob) = ''bob''" "Session.Username (Session c_carol) = ''carol''"
    by (simp_all add: c_alice_def c_bob_def c_carol_def)
  have k: "context_of s_three ''bob'' ''aux'' = None" "context_of s_three ''alice'' ''aux'' = Some 1"
    "context_of s_three ''bob'' ''main'' = Some 2" "context_of s_three ''carol'' ''main'' = Some 3"
    "context_of s_three ''alice'' ''main'' = Some 0"
    by (simp_all add: context_of_def s_three_def)
  have st: "IsDisconnected (heap s_three 2)" "\<not> IsDisconnected (heap s_three 3)"
    "IsConnected (heap s_three 0)"
    "\<not> IsConnected (heap s_three 3)" "\<not> IsConnecting (heap s_three 3)"
    by (simp_all add: IsDisconnected_def IsConnecting_def IsConnected_def s_three_def ctx_of_def)
  have nl: "\<not> live_context s_three ''carol'' ''main''"
    by (simp add: live_context_def k st)
  have p: "SendMessage e_ok (changeMessage (heap s_three 3)) = None" by (simp add: e_ok_def)
  have a: "adapters e_ok (ConnectionSpec.SystemCode cs_x) = Some broker_x"
    by (simp add: e_ok_def cs_x_def)
  have n: "NewConnectionContext e_ok ''carol'' ''main'' (RequestHost c_carol) broker_x
              (ConfigParams cs_x) (ConnectParams cs_x)
            = Inr (ctx_of ''carol'' ''main'' ContextStatusDisconnected False)"
    by (simp add: e_ok_def)
  have f: "fresh s_three = 4" by (simp add: s_three_def)
  from lookup_identity [where s = s_three and c = c_alice and connectionCode = "''aux''"
         and e = e_ok and a = 1 and flt = "''ES''"
         and tar = "\<lparr>Service = ''svc'', Query = ''q''\<rparr>"]
       lookup_identity [where s = s_three and c = c_alice and connectionCode = "''main''"
         and e = e_ok and a = 2 and b = 0 and cs = cs_x and root = "''ES''"]
       lookup_identity [where s = s_three and c = c_bob and connectionCode = "''aux''"
         and e = e_ok and tar = "\<lparr>Service = ''svc'', Query = ''q''\<rparr>"]
       lookup_identity [where s = s_three and c = c_bob and connectionCode = "''main''"
         and e = e_ok and b = 2]
       lookup_identity [where s = s_three and c = c_carol and connectionCode = "''main''"
         and e = e_ok and b = 3 and cs = cs_x and ad = broker_x
         and ctx = "ctx_of ''carol'' ''main'' ContextStatusDisconnected False"]
  show ?thesis by (simp add: u k st nl p a n f)
qed

section \<open>The outer map only grows\<close>

lemma step_keeps_users:
  "step s s' \<Longrightarrow> map_of (registry s) u \<noteq> None \<Longrightarrow> map_of (registry s') u \<noteq> None"
  by (induction rule: step.induct) (simp_all add: Connect_keeps_users Disconnect_keeps_users)

lemma steps_keep_users:
  "step\<^sup>*\<^sup>* s s' \<Longrightarrow> map_of (registry s) u \<noteq> None \<Longrightarrow> map_of (registry s') u \<noteq> None"
  by (induction rule: rtranclp_induct) (simp_all add: step_keeps_users)

lemma first_time_not_live:
  "map_of (registry s) user = None \<Longrightarrow> \<not> live_context s user code"
  by (simp add: live_context_def context_of_def)

text \<open>
  C10. A username that has an entry in the outer map has one after any sequence of
  Connect and Disconnect calls, the only operations that change the registry. Connect
  for a first-time caller stores an empty UserConnections before it looks the system
  code up: when the call then fails Not-Found, or returns the error of the context
  constructor, the empty entry is in the registry it leaves. Disconnect leaves the
  caller's entry in the outer map, either as it was or with the connection code
  deleted from the inner map.
\<close>

theorem user_entry_never_removed:
  assumes "user = Session.Username (Session c)"
  shows "(step\<^sup>*\<^sup>* s s' \<and> map_of (registry s) u \<noteq> None \<longrightarrow> map_of (registry s') u \<noteq> None)
   \<and> (map_of (registry s) user = None \<and> adapters e (ConnectionSpec.SystemCode cs) = None \<longrightarrow>
        fst (Connect e c connectionCode cs s) =
          Inl (NotFoundError (''System not found: '' @ ConnectionSpec.SystemCode cs))
        \<and> map_of (registry (snd (Connect e c connectionCode cs s))) user
            = Some NewUserConnections)
   \<and> (map_of (registry s) user = None \<and> adapters e (ConnectionSpec.SystemCode cs) = Some ad
        \<and> NewConnectionContext e user connectionCode (RequestHost c) ad
             (ConfigParams cs) (ConnectParams cs) = Inl err \<longrightarrow>
        fst (Connect e c connectionCode cs s) =
          Inr \<lparr>ConnectionResult.Status = Some ConnectionStatusError, Action = None,
               Message = err\<rparr>
        \<and> map_of (registry (snd (Connect e c connectionCode cs s))) user
            = Some NewUserConnections)
   \<and> (map_of (registry s) user = Some uc \<longrightarrow>
        map_of (registry (snd (Disconnect e c connectionCode s))) user = Some uc
        \<or> map_of (registry (snd (Disconnect e c connectionCode s))) user
            = Some (uc\<lparr>contexts := AList.delete connectionCode (contexts uc)\<rparr>))"
proof -
  have grows: "step\<^sup>*\<^sup>* s s' \<and> map_of (registry s) u \<noteq> None \<longrightarrow> map_of (registry s') u \<noteq> None"
    using steps_keep_users by blast
  have unknown: "map_of (registry s) user = None
        \<and> adapters e (ConnectionSpec.SystemCode cs) = None \<longrightarrow>
        fst (Connect e c connectionCode cs s) =
          Inl (NotFoundError (''System not found: '' @ ConnectionSpec.SystemCode cs))
        \<and> map_of (registry (snd (Connect e c connectionCode cs s))) user
            = Some NewUserConnections"
    using assms by (simp add: first_time_not_live Connect_unknown_system registry_entered)
  have noctx: "map_of (registry s) user = None
        \<and> adapters e (ConnectionSpec.SystemCode cs) = Some ad
        \<and> NewConnectionContext e user connectionCode (RequestHost c) ad
             (ConfigParams cs) (ConnectParams cs) = Inl err \<longrightarrow>
        fst (Connect e c connectionCode cs s) =
          Inr \<lparr>ConnectionResult.Status = Some ConnectionStatusError, Action = None,
               Message = err\<rparr>
        \<and> map_of (registry (snd (Connect e c connectionCode cs s))) user
            = Some NewUserConnections"
    using assms by (simp add: first_time_not_live Connect_constructor_fails registry_entered)
  have disc: "map_of (registry s) user = Some uc \<longrightarrow>
        map_of (registry (snd (Disconnect e c connectionCode s))) user = Some uc
        \<or> map_of (registry (snd (Disconnect e c connectionCode s))) user
            = Some (uc\<lparr>contexts := AList.delete connectionCode (contexts uc)\<rparr>)"
    using assms Disconnect_registry [of s c uc e connectionCode] by (auto simp: update_conv')
  show ?thesis by (rule conjI [OF grows conjI [OF unknown conjI [OF noctx disc]]])
qed

theorem user_entry_never_removed_witness:
  "map_of (registry s_empty) ''alice'' = None
   \<and> adapters e_ok ''nowhere'' = None
   \<and> fst (Connect e_ok c_alice ''main'' cs_unknown s_empty) =
       Inl (NotFoundError ''System not found: nowhere'')
   \<and> map_of (registry (snd (Connect e_ok c_alice ''main'' cs_unknown s_empty))) ''alice''
       = Some \<lparr>contexts = []\<rparr>
   \<and> fst (Connect e_noctx c_alice ''main'' cs_x s_empty) =
       Inr \<lparr>ConnectionResult.Status = Some ConnectionStatusError, Action = None,
            Message = ''bad config''\<rparr>
   \<and> map_of (registry (snd (Connect e_noctx c_alice ''main'' cs_x s_empty))) ''alice''
       = Some \<lparr>contexts = []\<rparr>
   \<and> map_of (registry s_three) ''carol'' = Some \<lparr>contexts = [(''main'', 3)]\<rparr>
   \<and> step\<^sup>*\<^sup>* s_three (snd (Disconnect e_ok c_carol ''main'' s_three))
   \<and> context_of (snd (Disconnect e_ok c_carol ''main'' s_three)) ''carol'' ''main'' = None
   \<and> map_of (registry (snd (Disconnect e_ok c_carol ''main'' s_three))) ''carol'' \<noteq> None
   \<and> map_of (registry (snd (Disconnect e_ok c_carol ''main'' s_three))) ''bob'' \<noteq> None"
proof -
  have ua: "''alice'' = Session.Username (Session c_alice)" by (simp add: c_alice_def)
  have uc: "''carol'' = Session.Username (Session c_carol)" by (simp add: c_carol_def)
  have n: "map_of (registry s_empty) ''alice'' = None" by (simp add: s_empty_def)
  have a: "adapters e_ok ''nowhere'' = None" "adapters e_noctx ''broker-x'' = Some broker_x"
    by (simp_all add: e_ok_def e_noctx_def)
  have sc: "ConnectionSpec.SystemCode cs_unknown = ''nowhere''"
    "ConnectionSpec.SystemCode cs_x = ''broker-x''"
    by (simp_all add: cs_unknown_def cs_x_def)
  have k: "NewConnectionContext e_noctx ''alice'' ''main'' (RequestHost c_alice) broker_x
             (ConfigParams cs_x) (ConnectParams cs_x) = Inl ''bad config''"
    by (simp add: e_noctx_def)
  have r: "map_of (registry s_three) ''carol'' = Some \<lparr>contexts = [(''main'', 3)]\<rparr>"
    "map_of (registry s_three) ''bob'' \<noteq> None"
    by (simp_all add: s_three_def)
  have st: "step\<^sup>*\<^sup>* s_three (snd (Disconnect e_ok c_carol ''main'' s_three))"
    by (rule r_into_rtranclp) (rule step_Disconnect)
  have gone: "context_of (snd (Disconnect e_ok c_carol ''main'' s_three)) ''carol'' ''main'' = None"
    by (simp add: Disconnect_def c_carol_def s_three_def Let_def sendConnectionChangeMessage_def
          e_ok_def IsDisconnected_def ctx_of_def context_of_def)
  from user_entry_never_removed [OF ua, where s = s_empty and e = e_ok and cs = cs_unknown
         and connectionCode = "''main''"]
       user_entry_never_removed [OF ua, where s = s_empty and e = e_noctx and cs = cs_x
         and connectionCode = "''main''" and ad = broker_x and err = "''bad config''"]
       user_entry_never_removed [OF uc, where s = s_three
         and s' = "snd (Disconnect e_ok c_carol ''main'' s_three)" and u = "''carol''"]
       user_entry_never_removed [OF uc, where s = s_three
         and s' = "snd (Disconnect e_ok c_carol ''main'' s_three)" and u = "''bob''"]
  show ?thesis using st gone by (simp add: n a sc k r NewUserConnections_def)
qed

end
